theory Spec2Isabelle
  imports Main "HOL-Library.Sublist"
begin

section \<open>Values of the JavaScript run time\<close>

text \<open>
  A value that reaches a \<^verbatim>\<open>catch\<close> clause or rejects a promise. The adapter only ever
  asks whether it is an instance of \<^verbatim>\<open>Error\<close> and, if so, reads its \<^verbatim>\<open>message\<close>;
  a thrown string primitive (as in \<^verbatim>\<open>accountManagement\<close>) and a thrown plain object
  (which may well own a property called \<^verbatim>\<open>message\<close>) are not instances of \<^verbatim>\<open>Error\<close>.
\<close>

datatype thrown =
    JsError string
  | ThrownString string
  | ThrownObject "(string \<times> string) list"

text \<open>
  JavaScript truthiness of a value of type \<^verbatim>\<open>string | undefined\<close>: \<^verbatim>\<open>undefined\<close> and the
  empty string are falsy, every other string is truthy.
\<close>

fun truthy :: "string option \<Rightarrow> bool" where
  "truthy None = False"
| "truthy (Some s) = (s \<noteq> [])"

text \<open>\<^verbatim>\<open>a || b\<close> on two values of type \<^verbatim>\<open>string | undefined\<close>.\<close>

definition js_or :: "string option \<Rightarrow> string option \<Rightarrow> string option" where
  "js_or a b = (if truthy a then a else b)"

text \<open>
  \<^verbatim>\<open>String.prototype.replace(pattern, replacement)\<close> with a string pattern: the first
  occurrence of the pattern (the lowest index at which it matches) is replaced, the rest
  of the subject is copied. The replacement text used by the adapter contains no \<^verbatim>\<open>$\<close>,
  so it is inserted literally.
\<close>

fun string_replace :: "string \<Rightarrow> string \<Rightarrow> string \<Rightarrow> string" where
  "string_replace [] pat rep = (if pat = [] then rep else [])"
| "string_replace (c # cs) pat rep =
     (if prefix pat (c # cs) then rep @ drop (length pat) (c # cs)
      else c # string_replace cs pat rep)"

section \<open>Collaborators\<close>

text \<open>
  Options of \<^verbatim>\<open>logout\<close> and of \<^verbatim>\<open>redirectUri\<close>: an object with an optional
  \<^verbatim>\<open>redirectUri\<close> property. The parameter itself is optional (\<^verbatim>\<open>options?\<close>), which is an
  \<open>option\<close> of this record.
\<close>

record redirect_options =
  optionsRedirectUri :: "string option"

text \<open>
  The protocol client (\<^verbatim>\<open>KeycloakInstance\<close>). Its two fields are read-only for the
  adapter; each method is given by its outcome: \<open>Inl\<close> a thrown value (or the rejection of
  the promise it returns), \<open>Inr\<close> the value it returns (or resolves with). \<open>'o\<close> are the
  opaque login and register options, \<open>'p\<close> the parsed callback parameters.
\<close>

record ('o, 'p) keycloak_instance =
  idToken :: "string option"
  clientRedirectUri :: "string option"
  createLoginUrl :: "'o option \<Rightarrow> thrown + string"
  createLogoutUrl :: "redirect_options option \<Rightarrow> thrown + string option"
  createRegisterUrl :: "'o option \<Rightarrow> thrown + string"
  createAccountUrl :: "thrown + string option"
  parseCallback :: "string \<Rightarrow> thrown + 'p"
  processCallback :: "'p \<Rightarrow> thrown + unit"
  clearToken :: "thrown + unit"

text \<open>The outcome of an authenticating browser session: \<^verbatim>\<open>{type, url?}\<close>.\<close>

record browser_result =
  result_type :: string
  result_url :: "string option"

text \<open>
  The in-app browser (\<^verbatim>\<open>InAppBrowser\<close>); \<open>'b\<close> are its opaque presentation options.
  \<open>openBrowser\<close> is its method \<^verbatim>\<open>open\<close>.
\<close>

record 'b in_app_browser =
  isAvailable :: "thrown + bool"
  openAuth :: "string \<Rightarrow> string option \<Rightarrow> 'b option \<Rightarrow> thrown + browser_result"
  openBrowser :: "string \<Rightarrow> 'b option \<Rightarrow> thrown + unit"

record 'b init_options =
  inAppBrowserOptions :: "'b option"

text \<open>
  The HTTP facility (\<^verbatim>\<open>fetch\<close>): the request the adapter builds and the part of the
  response it reads, the \<^verbatim>\<open>ok\<close> flag and the outcome of \<^verbatim>\<open>json()\<close>. \<open>'j\<close> is the
  parsed JSON value.
\<close>

record request =
  request_method :: string
  request_headers :: "(string \<times> string) list"
  request_body :: string

record 'j response =
  ok :: bool
  json :: "thrown + 'j"

section \<open>Asynchronous operations as traces with an outcome\<close>

text \<open>
  Every call the adapter makes on a collaborator, with the arguments it passes.
\<close>

datatype ('o, 'p, 'b) call =
    Call_createLoginUrl "'o option"
  | Call_createLogoutUrl "redirect_options option"
  | Call_createRegisterUrl "'o option"
  | Call_createAccountUrl
  | Call_parseCallback string
  | Call_processCallback 'p
  | Call_clearToken
  | Call_isAvailable
  | Call_openAuth string "string option" "'b option"
  | Call_open string "'b option"
  | Call_openURL string
  | Call_fetch string request
  | Call_json

text \<open>
  An \<^verbatim>\<open>async\<close> method runs to its end without interleaving with itself: it performs its
  collaborator calls in order and then either resolves (\<open>Inr\<close>) or rejects (\<open>Inl\<close>). A
  \<^verbatim>\<open>throw\<close>, a collaborator that throws and an awaited promise that rejects all end the
  method at that point, unless a \<^verbatim>\<open>try\<close> block catches them.
\<close>

type_synonym ('c, 'a) prog = "'c list \<times> (thrown + 'a)"

definition throw :: "thrown \<Rightarrow> ('c, 'a) prog" where
  "throw e = ([], Inl e)"

text \<open>Calling a collaborator (and awaiting it, when it returns a promise).\<close>

definition invoke :: "'c \<Rightarrow> thrown + 'a \<Rightarrow> ('c, 'a) prog" where
  "invoke c outcome = ([c], outcome)"

definition and_then :: "('c, 'a) prog \<Rightarrow> ('a \<Rightarrow> ('c, 'b) prog) \<Rightarrow> ('c, 'b) prog" where
  "and_then m f =
     (case m of
        (t, Inl e) \<Rightarrow> (t, Inl e)
      | (t, Inr x) \<Rightarrow> (case f x of (t', r) \<Rightarrow> (t @ t', r)))"

definition try_catch :: "('c, 'a) prog \<Rightarrow> (thrown \<Rightarrow> ('c, 'a) prog) \<Rightarrow> ('c, 'a) prog" where
  "try_catch m handler =
     (case m of
        (t, Inl e) \<Rightarrow> (case handler e of (t', r) \<Rightarrow> (t @ t', r))
      | (t, Inr x) \<Rightarrow> (t, Inr x))"

definition calls :: "('c, 'a) prog \<Rightarrow> 'c list" where
  "calls m = fst m"

definition outcome :: "('c, 'a) prog \<Rightarrow> thrown + 'a" where
  "outcome m = snd m"

section \<open>Login and register\<close>

text \<open>
  \<^verbatim>\<open>login\<close> and \<^verbatim>\<open>register\<close>. The test \<^verbatim>\<open>res.type === 'success' && res.url\<close> needs a
  truthy \<^verbatim>\<open>url\<close>; \<^verbatim>\<open>return this.client.processCallback(oauth)\<close> makes the promise of
  the callback processor the result of the method.
\<close>

definition login :: "('o, 'p) keycloak_instance \<Rightarrow> 'b in_app_browser \<Rightarrow> 'b init_options \<Rightarrow>
    'o option \<Rightarrow> (('o, 'p, 'b) call, unit) prog" where
  "login client browser initOptions options =
     and_then (invoke (Call_createLoginUrl options) (createLoginUrl client options)) (\<lambda>loginUrl.
     and_then (invoke Call_isAvailable (isAvailable browser)) (\<lambda>available.
       if available then
         and_then
           (invoke
              (Call_openAuth loginUrl (clientRedirectUri client) (inAppBrowserOptions initOptions))
              (openAuth browser loginUrl (clientRedirectUri client)
                 (inAppBrowserOptions initOptions)))
           (\<lambda>res.
              if result_type res = ''success'' \<and> truthy (result_url res) then
                (case result_url res of
                   Some url \<Rightarrow>
                     and_then (invoke (Call_parseCallback url) (parseCallback client url)) (\<lambda>oauth.
                       invoke (Call_processCallback oauth) (processCallback client oauth))
                 | None \<Rightarrow> throw (JsError ''Authentication flow failed''))
              else if result_type res = ''cancel'' then
                throw (JsError ''User has closed the browser'')
              else throw (JsError ''Authentication flow failed''))
       else throw (JsError ''InAppBrowser not available'')))"

definition register :: "('o, 'p) keycloak_instance \<Rightarrow> 'b in_app_browser \<Rightarrow> 'b init_options \<Rightarrow>
    'o option \<Rightarrow> (('o, 'p, 'b) call, unit) prog" where
  "register client browser initOptions options =
     and_then (invoke (Call_createRegisterUrl options) (createRegisterUrl client options))
       (\<lambda>registerUrl.
     and_then (invoke Call_isAvailable (isAvailable browser)) (\<lambda>available.
       if available then
         and_then
           (invoke
              (Call_openAuth registerUrl (clientRedirectUri client)
                 (inAppBrowserOptions initOptions))
              (openAuth browser registerUrl (clientRedirectUri client)
                 (inAppBrowserOptions initOptions)))
           (\<lambda>res.
              if result_type res = ''success'' \<and> truthy (result_url res) then
                (case result_url res of
                   Some url \<Rightarrow>
                     and_then (invoke (Call_parseCallback url) (parseCallback client url)) (\<lambda>oauth.
                       invoke (Call_processCallback oauth) (processCallback client oauth))
                 | None \<Rightarrow> throw (JsError ''Registration flow failed''))
              else throw (JsError ''Registration flow failed''))
       else throw (JsError ''InAppBrowser not available'')))"

section \<open>Logout\<close>

text \<open>Line 83 of the adapter: the rewrite of the logout URL built by the client.\<close>

definition rewriteLogoutUrl :: "string \<Rightarrow> string \<Rightarrow> string" where
  "rewriteLogoutUrl logoutUrl token =
     string_replace logoutUrl ''redirect_uri'' ''post_logout_redirect_uri''
       @ ''&id_token_hint='' @ token"

text \<open>
  The second argument of \<^verbatim>\<open>openAuth\<close> in \<^verbatim>\<open>logout\<close>:
  \<^verbatim>\<open>options?.redirectUri || this.client.redirectUri!\<close>.
\<close>

definition logoutRedirect :: "redirect_options option \<Rightarrow> ('o, 'p) keycloak_instance \<Rightarrow>
    string option" where
  "logoutRedirect options client =
     js_or (case options of Some opts \<Rightarrow> optionsRedirectUri opts | None \<Rightarrow> None)
       (clientRedirectUri client)"

text \<open>
  The \<^verbatim>\<open>try\<close> block of \<^verbatim>\<open>logout\<close>. The client is an \<open>option\<close> here because the
  source tests \<^verbatim>\<open>!this.client\<close>; \<open>openURL\<close> is \<^verbatim>\<open>Linking.openURL\<close>, which the source
  awaits.
\<close>

definition logout_try :: "('o, 'p) keycloak_instance option \<Rightarrow> 'b in_app_browser \<Rightarrow>
    (string \<Rightarrow> thrown + unit) \<Rightarrow> redirect_options option \<Rightarrow> (('o, 'p, 'b) call, unit) prog" where
  "logout_try clientOpt browser openURL options =
     (case clientOpt of
        None \<Rightarrow> throw (JsError ''Keycloak instance or ID token is missing.'')
      | Some client \<Rightarrow>
          (case idToken client of
             None \<Rightarrow> throw (JsError ''Keycloak instance or ID token is missing.'')
           | Some token \<Rightarrow>
               if token = [] then throw (JsError ''Keycloak instance or ID token is missing.'')
               else
                 and_then (invoke (Call_createLogoutUrl options) (createLogoutUrl client options))
                   (\<lambda>built.
                 if \<not> truthy built then throw (JsError ''Unable to create logout URL.'')
                 else
                   (case built of
                      None \<Rightarrow> throw (JsError ''Unable to create logout URL.'')
                    | Some url \<Rightarrow>
                        (let logoutUrl = rewriteLogoutUrl url token in
                         and_then (invoke Call_isAvailable (isAvailable browser)) (\<lambda>available.
                           if available then
                             and_then
                               (invoke
                                  (Call_openAuth logoutUrl (logoutRedirect options client) None)
                                  (openAuth browser logoutUrl (logoutRedirect options client) None))
                               (\<lambda>result.
                                  if result_type result = ''success'' then
                                    invoke Call_clearToken (clearToken client)
                                  else if result_type result = ''cancel''
                                       \<or> result_type result = ''dismiss'' then
                                    throw (JsError ''User has closed the browser'')
                                  else throw (JsError ''Logout process failed in InAppBrowser.''))
                           else
                             and_then (invoke (Call_openURL logoutUrl) (openURL logoutUrl)) (\<lambda>_.
                               invoke Call_clearToken (clearToken client))))))))"

text \<open>The \<^verbatim>\<open>catch\<close> clause of \<^verbatim>\<open>logout\<close>.\<close>

definition logout_catch :: "thrown \<Rightarrow> (('o, 'p, 'b) call, unit) prog" where
  "logout_catch error =
     (case error of
        JsError message \<Rightarrow> throw (JsError (''Logout process failed: '' @ message))
      | _ \<Rightarrow> throw (JsError ''An unknown error occurred during logout.''))"

definition logout :: "('o, 'p) keycloak_instance option \<Rightarrow> 'b in_app_browser \<Rightarrow>
    (string \<Rightarrow> thrown + unit) \<Rightarrow> redirect_options option \<Rightarrow> (('o, 'p, 'b) call, unit) prog" where
  "logout clientOpt browser openURL options =
     try_catch (logout_try clientOpt browser openURL options) logout_catch"

section \<open>Account management\<close>

text \<open>
  \<^verbatim>\<open>typeof accountUrl !== 'undefined'\<close> lets every string through, the empty one too; the
  value thrown otherwise is a string primitive, not an \<^verbatim>\<open>Error\<close>.
\<close>

definition accountManagement :: "('o, 'p) keycloak_instance \<Rightarrow> 'b in_app_browser \<Rightarrow>
    'b init_options \<Rightarrow> (('o, 'p, 'b) call, unit) prog" where
  "accountManagement client browser initOptions =
     and_then (invoke Call_createAccountUrl (createAccountUrl client)) (\<lambda>accountUrl.
       case accountUrl of
         Some url \<Rightarrow>
           invoke (Call_open url (inAppBrowserOptions initOptions))
             (openBrowser browser url (inAppBrowserOptions initOptions))
       | None \<Rightarrow> throw (ThrownString ''Not supported by the OIDC server''))"

section \<open>Token requests\<close>

definition tokenRequest :: "string \<Rightarrow> request" where
  "tokenRequest params =
     \<lparr>request_method = ''POST'',
      request_headers = [(''Content-type'', ''application/x-www-form-urlencoded'')],
      request_body = params\<rparr>"

definition fetchTokens :: "(string \<Rightarrow> request \<Rightarrow> thrown + 'j response) \<Rightarrow> string \<Rightarrow> string \<Rightarrow>
    (('o, 'p, 'b) call, 'j) prog" where
  "fetchTokens fetch tokenUrl params =
     and_then (invoke (Call_fetch tokenUrl (tokenRequest params))
                 (fetch tokenUrl (tokenRequest params))) (\<lambda>tokenRes.
       if \<not> ok tokenRes then throw (JsError ''fetchTokens failed'')
       else invoke Call_json (json tokenRes))"

definition refreshTokens :: "(string \<Rightarrow> request \<Rightarrow> thrown + 'j response) \<Rightarrow> string \<Rightarrow> string \<Rightarrow>
    (('o, 'p, 'b) call, 'j) prog" where
  "refreshTokens fetch tokenUrl params =
     and_then (invoke (Call_fetch tokenUrl (tokenRequest params))
                 (fetch tokenUrl (tokenRequest params))) (\<lambda>tokenRes.
       if \<not> ok tokenRes then throw (JsError ''refreshTokens failed'')
       else invoke Call_json (json tokenRes))"

section \<open>Redirect URI resolution\<close>

text \<open>\<^verbatim>\<open>RNAdapter.redirectUri\<close>; both tests are truthiness tests.\<close>

definition redirectUri :: "('o, 'p) keycloak_instance \<Rightarrow> redirect_options option \<Rightarrow> string" where
  "redirectUri client options =
     (case options of
        Some opts \<Rightarrow>
          (case optionsRedirectUri opts of
             Some u \<Rightarrow>
               if u \<noteq> [] then u
               else (case clientRedirectUri client of
                       Some c \<Rightarrow> if c \<noteq> [] then c else []
                     | None \<Rightarrow> [])
           | None \<Rightarrow>
               (case clientRedirectUri client of
                  Some c \<Rightarrow> if c \<noteq> [] then c else []
                | None \<Rightarrow> []))
      | None \<Rightarrow>
          (case clientRedirectUri client of
             Some c \<Rightarrow> if c \<noteq> [] then c else []
           | None \<Rightarrow> []))"

section \<open>Notions used to state the properties\<close>

text \<open>The text \<open>pat\<close> occurs in \<open>s\<close> at index \<open>n\<close>.\<close>

definition occurs_at :: "string \<Rightarrow> nat \<Rightarrow> string \<Rightarrow> bool" where
  "occurs_at pat n s = (n + length pat \<le> length s \<and> take (length pat) (drop n s) = pat)"

text \<open>The value the \<^verbatim>\<open>catch\<close> clause of \<^verbatim>\<open>logout\<close> throws for a caught value.\<close>

definition rewrapped :: "thrown \<Rightarrow> thrown" where
  "rewrapped e =
     (case e of
        JsError m \<Rightarrow> JsError (''Logout process failed: '' @ m)
      | _ \<Rightarrow> JsError ''An unknown error occurred during logout.'')"

text \<open>
  The rewrite of the logout URL as the specification words it, to be compared with
  \<open>rewriteLogoutUrl\<close>: the query of the URL (what follows the first \<^verbatim>\<open>?\<close>) is split at
  \<^verbatim>\<open>&\<close> into its parameters, the parameter whose name (what precedes its first \<^verbatim>\<open>=\<close>)
  is \<^verbatim>\<open>redirect_uri\<close> gets the name \<^verbatim>\<open>post_logout_redirect_uri\<close>, and the parameter
  \<^verbatim>\<open>id_token_hint\<close> with the token as its value is appended to the query.
\<close>

fun split_on :: "char \<Rightarrow> string \<Rightarrow> string list" where
  "split_on sep [] = [[]]"
| "split_on sep (c # cs) =
     (if c = sep then [] # split_on sep cs
      else (case split_on sep cs of
              [] \<Rightarrow> [[c]]
            | x # xs \<Rightarrow> (c # x) # xs))"

fun join_with :: "char \<Rightarrow> string list \<Rightarrow> string" where
  "join_with sep [] = []"
| "join_with sep [x] = x"
| "join_with sep (x # y # ys) = x @ sep # join_with sep (y # ys)"

definition spec_renameParameter :: "string \<Rightarrow> string" where
  "spec_renameParameter parameter =
     (if takeWhile (\<lambda>c. c \<noteq> CHR ''='') parameter = ''redirect_uri''
      then ''post_logout_redirect_uri'' @ dropWhile (\<lambda>c. c \<noteq> CHR ''='') parameter
      else parameter)"

definition spec_rewriteLogoutUrl :: "string \<Rightarrow> string \<Rightarrow> string" where
  "spec_rewriteLogoutUrl logoutUrl token =
     (case dropWhile (\<lambda>c. c \<noteq> CHR ''?'') logoutUrl of
        [] \<Rightarrow> logoutUrl @ ''?id_token_hint='' @ token
      | _ # query \<Rightarrow>
          takeWhile (\<lambda>c. c \<noteq> CHR ''?'') logoutUrl @ ''?''
            @ join_with (CHR ''&'')
                (map spec_renameParameter (split_on (CHR ''&'') query)
                   @ [''id_token_hint='' @ token]))"

section \<open>Example collaborators\<close>

text \<open>
  A client of the realm \<^verbatim>\<open>demo\<close> that holds a token, with the URLs the protocol library
  builds; three browsers (absent, closed by the user, redirected back to the app), two
  URL openers and a token endpoint.
\<close>

definition example_client :: "(unit, string) keycloak_instance" where
  "example_client =
     \<lparr>idToken = Some ''tok'',
      clientRedirectUri = Some ''app://cb'',
      createLoginUrl = (\<lambda>_. Inr ''https://kc/realms/demo/auth?redirect_uri=app%3A%2F%2Fcb''),
      createLogoutUrl =
        (\<lambda>_. Inr (Some ''https://kc/realms/demo/logout?redirect_uri=app%3A%2F%2Fcb'')),
      createRegisterUrl =
        (\<lambda>_. Inr ''https://kc/realms/demo/registrations?redirect_uri=app%3A%2F%2Fcb''),
      createAccountUrl = Inr (Some ''https://kc/realms/demo/account''),
      parseCallback = (\<lambda>url. Inr (drop 9 url)),
      processCallback = (\<lambda>_. Inr ()),
      clearToken = Inr ()\<rparr>"

text \<open>
  The same client behind a server whose logout URL carries, before the redirect parameter,
  a parameter whose name ends in \<^verbatim>\<open>redirect_uri\<close>.
\<close>

definition example_client_two_parameters :: "(unit, string) keycloak_instance" where
  "example_client_two_parameters =
     example_client
       \<lparr>createLogoutUrl :=
          (\<lambda>_. Inr (Some ''https://kc/logout?x_redirect_uri=1&redirect_uri=app''))\<rparr>"

definition unavailable_browser :: "unit in_app_browser" where
  "unavailable_browser =
     \<lparr>isAvailable = Inr False,
      openAuth = (\<lambda>_ _ _. Inl (JsError ''InAppBrowser is not available'')),
      openBrowser = (\<lambda>_ _. Inl (JsError ''InAppBrowser is not available''))\<rparr>"

definition cancelling_browser :: "unit in_app_browser" where
  "cancelling_browser =
     \<lparr>isAvailable = Inr True,
      openAuth = (\<lambda>_ _ _. Inr \<lparr>result_type = ''cancel'', result_url = None\<rparr>),
      openBrowser = (\<lambda>_ _. Inr ())\<rparr>"

definition redirecting_browser :: "unit in_app_browser" where
  "redirecting_browser =
     \<lparr>isAvailable = Inr True,
      openAuth = (\<lambda>_ _ _. Inr \<lparr>result_type = ''success'', result_url = Some ''app://cb#code=c0de''\<rparr>),
      openBrowser = (\<lambda>_ _. Inr ())\<rparr>"

definition accepting_opener :: "string \<Rightarrow> thrown + unit" where
  "accepting_opener url = Inr ()"

definition rejecting_opener :: "string \<Rightarrow> thrown + unit" where
  "rejecting_opener url = Inl (JsError ''Could not open URL'')"

text \<open>
  A token endpoint that answers the realm \<^verbatim>\<open>demo\<close> with a JSON object (here its list of
  members) and every other URL with a status that is not a success.
\<close>

definition example_fetch :: "string \<Rightarrow> request \<Rightarrow> thrown + (string \<times> string) list response" where
  "example_fetch url req =
     (if url = ''https://kc/realms/demo/token'' then
        Inr \<lparr>ok = True, json = Inr [(''access_token'', ''a1''), (''id_token'', ''tok'')]\<rparr>
      else Inr \<lparr>ok = False, json = Inl (JsError ''Unexpected end of JSON input'')\<rparr>)"

section \<open>Laws of the trace model\<close>

lemma and_then_invoke_Inl: "and_then (invoke c (Inl e)) f = ([c], Inl e)"
  by (simp add: and_then_def invoke_def)

lemma and_then_invoke_Inr: "and_then (invoke c (Inr x)) f = (c # fst (f x), snd (f x))"
  by (simp add: and_then_def invoke_def split: prod.splits)

lemma calls_simps:
  "calls (t, r) = t" "calls (throw e) = []" "calls (invoke c r) = [c]"
  by (simp_all add: calls_def throw_def invoke_def)

lemma outcome_simps:
  "outcome (t, r) = r" "outcome (throw e) = Inl e" "outcome (invoke c r) = r"
  by (simp_all add: outcome_def throw_def invoke_def)

lemma fst_snd_prog:
  "fst (throw e) = []" "snd (throw e) = Inl e" "fst (invoke c r) = [c]" "snd (invoke c r) = r"
  by (simp_all add: throw_def invoke_def)

lemma try_catch_outcome:
  "outcome (try_catch m h) =
     (case outcome m of Inl e \<Rightarrow> outcome (h e) | Inr x \<Rightarrow> Inr x)"
  by (cases m) (simp add: try_catch_def outcome_def split: sum.splits prod.splits)

lemma try_catch_calls:
  "calls (try_catch m h) =
     (case outcome m of Inl e \<Rightarrow> calls m @ calls (h e) | Inr x \<Rightarrow> calls m)"
  by (cases m) (simp add: try_catch_def outcome_def calls_def split: sum.splits prod.splits)

section \<open>Replacing the first occurrence\<close>

lemma occurs_at_0: "occurs_at pat 0 s = prefix pat s"
proof
  assume "occurs_at pat 0 s"
  then have "take (length pat) s = pat" by (simp add: occurs_at_def)
  then show "prefix pat s" by (metis take_is_prefix)
next
  assume "prefix pat s"
  then obtain r where "s = pat @ r" by (auto simp: prefix_def)
  then show "occurs_at pat 0 s" by (simp add: occurs_at_def)
qed

lemma occurs_at_Suc: "occurs_at pat (Suc n) (c # cs) = occurs_at pat n cs"
  by (simp add: occurs_at_def)

lemma string_replace_first:
  "occurs_at pat n s \<Longrightarrow> \<forall>k<n. \<not> occurs_at pat k s \<Longrightarrow>
     string_replace s pat rep = take n s @ rep @ drop (n + length pat) s"
proof (induction s arbitrary: n)
  case Nil
  then show ?case by (simp add: occurs_at_def)
next
  case (Cons c cs)
  show ?case
  proof (cases n)
    case 0
    with Cons.prems(1) have "prefix pat (c # cs)" by (simp add: occurs_at_0)
    with 0 show ?thesis by simp
  next
    case (Suc m)
    with Cons.prems(2) have np: "\<not> prefix pat (c # cs)"
      using occurs_at_0 by blast
    from Suc Cons.prems(1) have o: "occurs_at pat m cs" by (simp add: occurs_at_Suc)
    have "\<forall>k<m. \<not> occurs_at pat k cs"
    proof (intro allI impI)
      fix k assume "k < m"
      then have "Suc k < n" using Suc by simp
      with Cons.prems(2) have "\<not> occurs_at pat (Suc k) (c # cs)" by blast
      then show "\<not> occurs_at pat k cs" by (simp add: occurs_at_Suc)
    qed
    with o have "string_replace cs pat rep = take m cs @ rep @ drop (m + length pat) cs"
      by (rule Cons.IH)
    with np Suc show ?thesis by simp
  qed
qed

lemma string_replace_absent:
  "\<forall>k. \<not> occurs_at pat k s \<Longrightarrow> string_replace s pat rep = s"
proof (induction s)
  case Nil
  then have "\<not> occurs_at pat 0 []" by blast
  then have "pat \<noteq> []" by (auto simp: occurs_at_def)
  then show ?case by simp
next
  case (Cons c cs)
  then have np: "\<not> prefix pat (c # cs)" using occurs_at_0 by blast
  have "\<forall>k. \<not> occurs_at pat k cs"
  proof
    fix k
    from Cons.prems have "\<not> occurs_at pat (Suc k) (c # cs)" by blast
    then show "\<not> occurs_at pat k cs" by (simp add: occurs_at_Suc)
  qed
  then have "string_replace cs pat rep = cs" by (rule Cons.IH)
  with np show ?case by simp
qed

section \<open>Logout: what the adapter calls and how it ends\<close>

lemma logout_catch_rewrapped: "logout_catch e = throw (rewrapped e)"
  by (simp add: logout_catch_def rewrapped_def split: thrown.splits)

lemma logout_calls:
  "calls (logout clientOpt browser openURL options) =
     calls (logout_try clientOpt browser openURL options)"
  by (simp add: logout_def try_catch_calls logout_catch_rewrapped calls_simps split: sum.splits)

lemma logout_outcome:
  "outcome (logout clientOpt browser openURL options) =
     (case outcome (logout_try clientOpt browser openURL options) of
        Inl e \<Rightarrow> Inl (rewrapped e) | Inr x \<Rightarrow> Inr x)"
  by (simp add: logout_def try_catch_outcome logout_catch_rewrapped outcome_simps
      split: sum.splits)

lemma logout_try_unavailable:
  assumes "idToken client = Some token" and "token \<noteq> []"
    and "createLogoutUrl client options = Inr (Some url)" and "url \<noteq> []"
    and "isAvailable browser = Inr False"
  shows "logout_try (Some client) browser openURL options =
     (case openURL (rewriteLogoutUrl url token) of
        Inl e \<Rightarrow> ([Call_createLogoutUrl options, Call_isAvailable,
                   Call_openURL (rewriteLogoutUrl url token)], Inl e)
      | Inr _ \<Rightarrow> ([Call_createLogoutUrl options, Call_isAvailable,
                   Call_openURL (rewriteLogoutUrl url token), Call_clearToken],
                  clearToken client))"
  using assms
  by (simp add: logout_try_def and_then_invoke_Inr and_then_invoke_Inl fst_snd_prog Let_def
      split: sum.splits)

lemma logout_try_available:
  assumes "idToken client = Some token" and "token \<noteq> []"
    and "createLogoutUrl client options = Inr (Some url)" and "url \<noteq> []"
    and "isAvailable browser = Inr True"
  shows "logout_try (Some client) browser openURL options =
     (case openAuth browser (rewriteLogoutUrl url token) (logoutRedirect options client) None of
        Inl e \<Rightarrow>
          ([Call_createLogoutUrl options, Call_isAvailable,
            Call_openAuth (rewriteLogoutUrl url token) (logoutRedirect options client) None],
           Inl e)
      | Inr result \<Rightarrow>
          if result_type result = ''success'' then
            ([Call_createLogoutUrl options, Call_isAvailable,
              Call_openAuth (rewriteLogoutUrl url token) (logoutRedirect options client) None,
              Call_clearToken], clearToken client)
          else if result_type result = ''cancel'' \<or> result_type result = ''dismiss'' then
            ([Call_createLogoutUrl options, Call_isAvailable,
              Call_openAuth (rewriteLogoutUrl url token) (logoutRedirect options client) None],
             Inl (JsError ''User has closed the browser''))
          else
            ([Call_createLogoutUrl options, Call_isAvailable,
              Call_openAuth (rewriteLogoutUrl url token) (logoutRedirect options client) None],
             Inl (JsError ''Logout process failed in InAppBrowser.'')))"
  using assms
  by (simp add: logout_try_def and_then_invoke_Inr and_then_invoke_Inl fst_snd_prog Let_def
      split: sum.splits)

lemma logout_try_no_availability:
  assumes "idToken client = Some token" and "token \<noteq> []"
    and "createLogoutUrl client options = Inr (Some url)" and "url \<noteq> []"
    and "isAvailable browser = Inl e"
  shows "logout_try (Some client) browser openURL options =
     ([Call_createLogoutUrl options, Call_isAvailable], Inl e)"
  using assms
  by (simp add: logout_try_def and_then_invoke_Inr and_then_invoke_Inl fst_snd_prog Let_def)

lemma example_rewrite:
  "rewriteLogoutUrl ''https://kc/realms/demo/logout?redirect_uri=app%3A%2F%2Fcb'' ''tok'' =
     ''https://kc/realms/demo/logout?post_logout_redirect_uri=app%3A%2F%2Fcb&id_token_hint=tok''"
  by (simp add: rewriteLogoutUrl_def)

text \<open>
  C1, as the source has it. With a non-empty identity token, a logout URL built and the
  in-app browser reporting itself unavailable, the adapter hands the rewritten URL to the
  generic URL opener and awaits it. When the opener resolves, the next and last call is
  \<^verbatim>\<open>clearToken\<close>, and logout ends as \<^verbatim>\<open>clearToken\<close> does (a failure of it rewrapped).
  When the opener rejects, nothing is called after it, \<^verbatim>\<open>clearToken\<close> in particular, and
  logout rejects with the rewrapped rejection of the opener.
\<close>

theorem logout_unavailable_browser:
  assumes "idToken client = Some token" and "token \<noteq> []"
    and "createLogoutUrl client options = Inr (Some url)" and "url \<noteq> []"
    and "isAvailable browser = Inr False"
  shows "(openURL (rewriteLogoutUrl url token) = Inr () \<longrightarrow>
           calls (logout (Some client) browser openURL options) =
             [Call_createLogoutUrl options, Call_isAvailable,
              Call_openURL (rewriteLogoutUrl url token), Call_clearToken] \<and>
           outcome (logout (Some client) browser openURL options) =
             (case clearToken client of Inl e \<Rightarrow> Inl (rewrapped e) | Inr x \<Rightarrow> Inr x)) \<and>
         (\<forall>e. openURL (rewriteLogoutUrl url token) = Inl e \<longrightarrow>
           calls (logout (Some client) browser openURL options) =
             [Call_createLogoutUrl options, Call_isAvailable,
              Call_openURL (rewriteLogoutUrl url token)] \<and>
           outcome (logout (Some client) browser openURL options) = Inl (rewrapped e))"
  by (simp add: logout_calls logout_outcome logout_try_unavailable [OF assms] calls_simps
      outcome_simps)

theorem logout_unavailable_browser_witness:
  "calls (logout (Some example_client) unavailable_browser accepting_opener None) =
     [Call_createLogoutUrl None, Call_isAvailable,
      Call_openURL
        ''https://kc/realms/demo/logout?post_logout_redirect_uri=app%3A%2F%2Fcb&id_token_hint=tok'',
      Call_clearToken] \<and>
   outcome (logout (Some example_client) unavailable_browser accepting_opener None) = Inr ()"
  using logout_unavailable_browser [of example_client "''tok''" None
      "''https://kc/realms/demo/logout?redirect_uri=app%3A%2F%2Fcb''" unavailable_browser
      accepting_opener]
  by (simp add: example_client_def unavailable_browser_def accepting_opener_def example_rewrite)

text \<open>
  C1 as the specification states it fails: the client holds a token, the logout URL is
  built, the browser is unavailable, the URL opener rejects; then \<^verbatim>\<open>clearToken\<close> is not
  called and logout rejects.
\<close>

theorem logout_opener_rejection_counterexample:
  "idToken example_client = Some ''tok'' \<and>
   createLogoutUrl example_client None =
     Inr (Some ''https://kc/realms/demo/logout?redirect_uri=app%3A%2F%2Fcb'') \<and>
   isAvailable unavailable_browser = Inr False \<and>
   Call_clearToken \<notin> set (calls (logout (Some example_client) unavailable_browser
     rejecting_opener None)) \<and>
   outcome (logout (Some example_client) unavailable_browser rejecting_opener None) =
     Inl (JsError ''Logout process failed: Could not open URL'')"
proof -
  have t: "logout_try (Some example_client) unavailable_browser rejecting_opener None =
     ([Call_createLogoutUrl None, Call_isAvailable,
       Call_openURL
         ''https://kc/realms/demo/logout?post_logout_redirect_uri=app%3A%2F%2Fcb&id_token_hint=tok''],
      Inl (JsError ''Could not open URL''))"
    using logout_try_unavailable [of example_client "''tok''" None
      "''https://kc/realms/demo/logout?redirect_uri=app%3A%2F%2Fcb''" unavailable_browser
      rejecting_opener]
    by (simp add: example_client_def unavailable_browser_def rejecting_opener_def example_rewrite)
  show ?thesis
    by (simp add: logout_calls logout_outcome t calls_simps outcome_simps rewrapped_def)
      (simp add: example_client_def unavailable_browser_def)
qed

text \<open>
  C2, as the source has it. With a non-empty identity token and a logout URL built by the
  client, every URL the adapter opens in an authenticating browser session or hands to the
  URL opener is the built URL with the first occurrence of the text \<^verbatim>\<open>redirect_uri\<close>
  replaced by \<^verbatim>\<open>post_logout_redirect_uri\<close> (the built URL itself when the text does not
  occur), followed by \<^verbatim>\<open>&id_token_hint=\<close> and the token. When the built URL is
  \<^verbatim>\<open>base?redirect_uri=rest\<close> and the text does not occur earlier, the opened URL is
  \<^verbatim>\<open>base?post_logout_redirect_uri=rest&id_token_hint=token\<close>: the name of the redirect
  parameter is rewritten and the hint is appended to the query. Such a URL is opened in the
  browser when it is available and handed to the URL opener when it is not; the plain
  browser view is never used.
\<close>

theorem logout_opens_rewritten_url:
  assumes "idToken client = Some token" and "token \<noteq> []"
    and "createLogoutUrl client options = Inr (Some url)" and "url \<noteq> []"
  shows "(\<forall>u. (\<exists>r b. Call_openAuth u r b
                   \<in> set (calls (logout (Some client) browser openURL options))) \<or>
              Call_openURL u \<in> set (calls (logout (Some client) browser openURL options)) \<longrightarrow>
            (\<forall>n. occurs_at ''redirect_uri'' n url \<and>
                 (\<forall>k<n. \<not> occurs_at ''redirect_uri'' k url) \<longrightarrow>
               u = take n url @ ''post_logout_redirect_uri'' @ drop (n + 12) url
                     @ ''&id_token_hint='' @ token) \<and>
            ((\<forall>k. \<not> occurs_at ''redirect_uri'' k url) \<longrightarrow>
               u = url @ ''&id_token_hint='' @ token) \<and>
            (\<forall>base rest. url = base @ ''?redirect_uri='' @ rest \<and>
                 (\<forall>k<Suc (length base). \<not> occurs_at ''redirect_uri'' k url) \<longrightarrow>
               u = base @ ''?post_logout_redirect_uri='' @ rest
                     @ ''&id_token_hint='' @ token)) \<and>
         (isAvailable browser = Inr True \<longrightarrow>
            (\<exists>u. Call_openAuth u (logoutRedirect options client) None
                   \<in> set (calls (logout (Some client) browser openURL options)))) \<and>
         (isAvailable browser = Inr False \<longrightarrow>
            (\<exists>u. Call_openURL u
                   \<in> set (calls (logout (Some client) browser openURL options)))) \<and>
         (\<forall>u b. Call_open u b \<notin> set (calls (logout (Some client) browser openURL options)))"
proof -
  let ?L = "logout (Some client) browser openURL options"
  let ?w = "rewriteLogoutUrl url token"
  have len: "length ''redirect_uri'' = 12" by simp
  have W1: "?w = take n url @ ''post_logout_redirect_uri'' @ drop (n + 12) url
                   @ ''&id_token_hint='' @ token"
    if "occurs_at ''redirect_uri'' n url \<and> (\<forall>k<n. \<not> occurs_at ''redirect_uri'' k url)"
    for n
  proof -
    have "string_replace url ''redirect_uri'' ''post_logout_redirect_uri'' =
        take n url @ ''post_logout_redirect_uri'' @ drop (n + length ''redirect_uri'') url"
      by (rule string_replace_first [OF conjunct1 [OF that] conjunct2 [OF that]])
    then have "string_replace url ''redirect_uri'' ''post_logout_redirect_uri'' =
        take n url @ ''post_logout_redirect_uri'' @ drop (n + 12) url"
      unfolding len .
    then show ?thesis by (simp add: rewriteLogoutUrl_def)
  qed
  have W2: "?w = url @ ''&id_token_hint='' @ token"
    if "\<forall>k. \<not> occurs_at ''redirect_uri'' k url"
    using that by (simp add: rewriteLogoutUrl_def string_replace_absent)
  have W3: "?w = base @ ''?post_logout_redirect_uri='' @ rest @ ''&id_token_hint='' @ token"
    if h: "url = base @ ''?redirect_uri='' @ rest \<and>
      (\<forall>k<Suc (length base). \<not> occurs_at ''redirect_uri'' k url)"
    for base rest
  proof -
    from h have u: "url = base @ ''?redirect_uri='' @ rest" by (rule conjunct1)
    have "occurs_at ''redirect_uri'' (Suc (length base)) url"
      by (simp add: u occurs_at_def)
    then have "string_replace url ''redirect_uri'' ''post_logout_redirect_uri'' =
        take (Suc (length base)) url @ ''post_logout_redirect_uri''
          @ drop (Suc (length base) + length ''redirect_uri'') url"
      using conjunct2 [OF h] by (rule string_replace_first)
    then have "string_replace url ''redirect_uri'' ''post_logout_redirect_uri''
        = base @ ''?post_logout_redirect_uri='' @ rest"
      by (simp add: u)
    then show ?thesis by (simp add: rewriteLogoutUrl_def)
  qed
  have c: "calls ?L =
      (case isAvailable browser of
         Inl e \<Rightarrow> [Call_createLogoutUrl options, Call_isAvailable]
       | Inr available \<Rightarrow>
           if available then
             (case openAuth browser ?w (logoutRedirect options client) None of
                Inl e \<Rightarrow> [Call_createLogoutUrl options, Call_isAvailable,
                           Call_openAuth ?w (logoutRedirect options client) None]
              | Inr result \<Rightarrow>
                  if result_type result = ''success'' then
                    [Call_createLogoutUrl options, Call_isAvailable,
                     Call_openAuth ?w (logoutRedirect options client) None, Call_clearToken]
                  else [Call_createLogoutUrl options, Call_isAvailable,
                        Call_openAuth ?w (logoutRedirect options client) None])
           else
             (case openURL ?w of
                Inl e \<Rightarrow> [Call_createLogoutUrl options, Call_isAvailable, Call_openURL ?w]
              | Inr _ \<Rightarrow> [Call_createLogoutUrl options, Call_isAvailable, Call_openURL ?w,
                           Call_clearToken]))"
  proof (cases "isAvailable browser")
    case (Inl e)
    then show ?thesis
      by (simp add: logout_calls logout_try_no_availability [OF assms Inl] calls_simps)
  next
    case (Inr available)
    show ?thesis
    proof (cases available)
      case True
      with Inr have a: "isAvailable browser = Inr True" by simp
      show ?thesis
        by (simp add: logout_calls logout_try_available [OF assms a] a calls_simps
            split: sum.splits)
    next
      case False
      with Inr have a: "isAvailable browser = Inr False" by simp
      show ?thesis
        by (simp add: logout_calls logout_try_unavailable [OF assms a] a calls_simps
            split: sum.splits)
    qed
  qed
  have opened: "u = ?w"
    if "(\<exists>r b. Call_openAuth u r b \<in> set (calls ?L)) \<or> Call_openURL u \<in> set (calls ?L)"
    for u
    using that unfolding c by (auto split: sum.splits if_splits)
  have A: "\<forall>u. (\<exists>r b. Call_openAuth u r b \<in> set (calls ?L)) \<or>
              Call_openURL u \<in> set (calls ?L) \<longrightarrow>
            (\<forall>n. occurs_at ''redirect_uri'' n url \<and>
                 (\<forall>k<n. \<not> occurs_at ''redirect_uri'' k url) \<longrightarrow>
               u = take n url @ ''post_logout_redirect_uri'' @ drop (n + 12) url
                     @ ''&id_token_hint='' @ token) \<and>
            ((\<forall>k. \<not> occurs_at ''redirect_uri'' k url) \<longrightarrow>
               u = url @ ''&id_token_hint='' @ token) \<and>
            (\<forall>base rest. url = base @ ''?redirect_uri='' @ rest \<and>
                 (\<forall>k<Suc (length base). \<not> occurs_at ''redirect_uri'' k url) \<longrightarrow>
               u = base @ ''?post_logout_redirect_uri='' @ rest
                     @ ''&id_token_hint='' @ token)"
  proof (intro allI impI conjI)
    fix u n
    assume "(\<exists>r b. Call_openAuth u r b \<in> set (calls ?L)) \<or> Call_openURL u \<in> set (calls ?L)"
      and "occurs_at ''redirect_uri'' n url \<and> (\<forall>k<n. \<not> occurs_at ''redirect_uri'' k url)"
    then show "u = take n url @ ''post_logout_redirect_uri'' @ drop (n + 12) url
        @ ''&id_token_hint='' @ token"
      using opened W1 by simp
  next
    fix u
    assume "(\<exists>r b. Call_openAuth u r b \<in> set (calls ?L)) \<or> Call_openURL u \<in> set (calls ?L)"
      and "\<forall>k. \<not> occurs_at ''redirect_uri'' k url"
    then show "u = url @ ''&id_token_hint='' @ token"
      using opened W2 by simp
  next
    fix u base rest
    assume o: "(\<exists>r b. Call_openAuth u r b \<in> set (calls ?L)) \<or>
        Call_openURL u \<in> set (calls ?L)"
      and h: "url = base @ ''?redirect_uri='' @ rest \<and>
        (\<forall>k<Suc (length base). \<not> occurs_at ''redirect_uri'' k url)"
    from o have "u = ?w" by (rule opened)
    also have "?w = base @ ''?post_logout_redirect_uri='' @ rest @ ''&id_token_hint='' @ token"
      using h by (rule W3)
    finally show "u = base @ ''?post_logout_redirect_uri='' @ rest
        @ ''&id_token_hint='' @ token" .
  qed
  have B: "isAvailable browser = Inr True \<longrightarrow>
      (\<exists>u. Call_openAuth u (logoutRedirect options client) None \<in> set (calls ?L))"
    unfolding c by (auto split: sum.splits)
  have C: "isAvailable browser = Inr False \<longrightarrow> (\<exists>u. Call_openURL u \<in> set (calls ?L))"
    unfolding c by (auto split: sum.splits)
  have D: "\<forall>u b. Call_open u b \<notin> set (calls ?L)"
    unfolding c by (simp split: sum.splits)
  from A B C D show ?thesis by (intro conjI)
qed

theorem logout_opens_rewritten_url_witness:
  "Call_openAuth
     ''https://kc/realms/demo/logout?post_logout_redirect_uri=app%3A%2F%2Fcb&id_token_hint=tok''
     (Some ''app://cb'') None
     \<in> set (calls (logout (Some example_client) redirecting_browser accepting_opener None)) \<and>
   Call_openURL
     ''https://kc/realms/demo/logout?post_logout_redirect_uri=app%3A%2F%2Fcb&id_token_hint=tok''
     \<in> set (calls (logout (Some example_client) unavailable_browser accepting_opener None))"
proof -
  let ?url = "''https://kc/realms/demo/logout?redirect_uri=app%3A%2F%2Fcb''"
  let ?new = "''https://kc/realms/demo/logout?post_logout_redirect_uri=app%3A%2F%2Fcb&id_token_hint=tok''"
  have t: "idToken example_client = Some ''tok''" and t': "''tok'' \<noteq> []"
    and b: "createLogoutUrl example_client None = Inr (Some ?url)" and b': "?url \<noteq> []"
    by (simp_all add: example_client_def)
  have shape: "?url = ''https://kc/realms/demo/logout'' @ ''?redirect_uri='' @ ''app%3A%2F%2Fcb'' \<and>
      (\<forall>k<Suc (length ''https://kc/realms/demo/logout''). \<not> occurs_at ''redirect_uri'' k ?url)"
    by (simp add: All_less_Suc occurs_at_def)
  have r: "logoutRedirect None example_client = Some ''app://cb''"
    by (simp add: logoutRedirect_def js_or_def example_client_def)
  note browser = logout_opens_rewritten_url [OF t t' b b', of redirecting_browser accepting_opener]
  note opener = logout_opens_rewritten_url [OF t t' b b', of unavailable_browser accepting_opener]
  have "isAvailable redirecting_browser = Inr True" by (simp add: redirecting_browser_def)
  with browser obtain u where u: "Call_openAuth u (Some ''app://cb'') None
      \<in> set (calls (logout (Some example_client) redirecting_browser accepting_opener None))"
    unfolding r by blast
  with browser shape have "u = ''https://kc/realms/demo/logout'' @ ''?post_logout_redirect_uri=''
      @ ''app%3A%2F%2Fcb'' @ ''&id_token_hint='' @ ''tok''"
    by blast
  then have "u = ?new" by simp
  with u have first: "Call_openAuth ?new (Some ''app://cb'') None
      \<in> set (calls (logout (Some example_client) redirecting_browser accepting_opener None))"
    by simp
  have "isAvailable unavailable_browser = Inr False" by (simp add: unavailable_browser_def)
  with opener obtain v where v: "Call_openURL v
      \<in> set (calls (logout (Some example_client) unavailable_browser accepting_opener None))"
    by blast
  with opener shape have "v = ''https://kc/realms/demo/logout'' @ ''?post_logout_redirect_uri=''
      @ ''app%3A%2F%2Fcb'' @ ''&id_token_hint='' @ ''tok''"
    by blast
  then have "v = ?new" by simp
  with v have second: "Call_openURL ?new
      \<in> set (calls (logout (Some example_client) unavailable_browser accepting_opener None))"
    by simp
  from first second show ?thesis by (rule conjI)
qed

text \<open>
  C2 as the specification states it fails. The client holds a token and builds the logout
  URL \<^verbatim>\<open>https://kc/logout?x_redirect_uri=1&redirect_uri=app\<close>; the URL handed to the URL
  opener has the name of the first parameter rewritten and the redirect parameter under its
  login-style name, which is not the URL with the redirect parameter renamed and the hint
  appended.
\<close>

theorem logout_redirect_parameter_counterexample:
  "idToken example_client_two_parameters = Some ''tok'' \<and>
   createLogoutUrl example_client_two_parameters None =
     Inr (Some ''https://kc/logout?x_redirect_uri=1&redirect_uri=app'') \<and>
   calls (logout (Some example_client_two_parameters) unavailable_browser accepting_opener
     None) =
     [Call_createLogoutUrl None, Call_isAvailable,
      Call_openURL
        ''https://kc/logout?x_post_logout_redirect_uri=1&redirect_uri=app&id_token_hint=tok'',
      Call_clearToken] \<and>
   spec_rewriteLogoutUrl ''https://kc/logout?x_redirect_uri=1&redirect_uri=app'' ''tok'' =
     ''https://kc/logout?x_redirect_uri=1&post_logout_redirect_uri=app&id_token_hint=tok'' \<and>
   Call_openURL
     (spec_rewriteLogoutUrl ''https://kc/logout?x_redirect_uri=1&redirect_uri=app'' ''tok'')
     \<notin> set (calls (logout (Some example_client_two_parameters) unavailable_browser
       accepting_opener None))"
proof -
  have w: "rewriteLogoutUrl ''https://kc/logout?x_redirect_uri=1&redirect_uri=app'' ''tok'' =
      ''https://kc/logout?x_post_logout_redirect_uri=1&redirect_uri=app&id_token_hint=tok''"
    by (simp add: rewriteLogoutUrl_def)
  have s: "spec_rewriteLogoutUrl ''https://kc/logout?x_redirect_uri=1&redirect_uri=app'' ''tok'' =
      ''https://kc/logout?x_redirect_uri=1&post_logout_redirect_uri=app&id_token_hint=tok''"
    by (simp add: spec_rewriteLogoutUrl_def spec_renameParameter_def)
  have t: "logout_try (Some example_client_two_parameters) unavailable_browser accepting_opener
      None =
     ([Call_createLogoutUrl None, Call_isAvailable,
       Call_openURL
         ''https://kc/logout?x_post_logout_redirect_uri=1&redirect_uri=app&id_token_hint=tok'',
       Call_clearToken], Inr ())"
    using logout_try_unavailable [of example_client_two_parameters "''tok''" None
      "''https://kc/logout?x_redirect_uri=1&redirect_uri=app''" unavailable_browser
      accepting_opener]
    by (simp add: example_client_two_parameters_def example_client_def unavailable_browser_def
        accepting_opener_def w)
  have c: "calls (logout (Some example_client_two_parameters) unavailable_browser
      accepting_opener None) =
     [Call_createLogoutUrl None, Call_isAvailable,
      Call_openURL
        ''https://kc/logout?x_post_logout_redirect_uri=1&redirect_uri=app&id_token_hint=tok'',
      Call_clearToken]"
    by (simp add: logout_calls t calls_simps)
  have i: "idToken example_client_two_parameters = Some ''tok''"
    and b: "createLogoutUrl example_client_two_parameters None =
      Inr (Some ''https://kc/logout?x_redirect_uri=1&redirect_uri=app'')"
    by (simp_all add: example_client_two_parameters_def example_client_def)
  have n: "Call_openURL
     (spec_rewriteLogoutUrl ''https://kc/logout?x_redirect_uri=1&redirect_uri=app'' ''tok'')
     \<notin> set (calls (logout (Some example_client_two_parameters) unavailable_browser
       accepting_opener None))"
    unfolding c s by simp
  from i b c s n show ?thesis by (intro conjI)
qed

text \<open>
  C3. When the client is absent, or its identity token is absent or empty, logout calls no
  collaborator at all (no logout URL is built, the browser is neither asked nor opened, the
  URL opener is not called) and rejects with the rewrapped precondition error.
\<close>

theorem logout_rejects_without_token:
  assumes "clientOpt = None \<or>
    (\<exists>client. clientOpt = Some client \<and> (idToken client = None \<or> idToken client = Some []))"
  shows "calls (logout clientOpt browser openURL options) = [] \<and>
     outcome (logout clientOpt browser openURL options) =
       Inl (JsError ''Logout process failed: Keycloak instance or ID token is missing.'')"
proof -
  have "logout_try clientOpt browser openURL options =
      throw (JsError ''Keycloak instance or ID token is missing.'')"
    using assms by (auto simp: logout_try_def)
  then show ?thesis
    by (simp add: logout_calls logout_outcome calls_simps outcome_simps rewrapped_def)
qed

theorem logout_rejects_without_token_witness:
  "calls (logout (Some (example_client\<lparr>idToken := Some []\<rparr>)) redirecting_browser
      accepting_opener None) = [] \<and>
   outcome (logout (Some (example_client\<lparr>idToken := Some []\<rparr>)) redirecting_browser
      accepting_opener None) =
     Inl (JsError ''Logout process failed: Keycloak instance or ID token is missing.'') \<and>
   calls (logout (Some (example_client\<lparr>idToken := None\<rparr>)) unavailable_browser
      accepting_opener None) = [] \<and>
   calls (logout (None :: (unit, string) keycloak_instance option) redirecting_browser
      accepting_opener None) = []"
  using logout_rejects_without_token [of "Some (example_client\<lparr>idToken := Some []\<rparr>)"
      redirecting_browser accepting_opener None]
    logout_rejects_without_token [of "Some (example_client\<lparr>idToken := None\<rparr>)"
      unavailable_browser accepting_opener None]
    logout_rejects_without_token [of "None :: (unit, string) keycloak_instance option"
      redirecting_browser accepting_opener None]
  by simp

lemma logout_try_missing:
  assumes "clientOpt = None \<or>
    (\<exists>client. clientOpt = Some client \<and> (idToken client = None \<or> idToken client = Some []))"
  shows "logout_try clientOpt browser openURL options =
     throw (JsError ''Keycloak instance or ID token is missing.'')"
  using assms by (auto simp: logout_try_def)

lemma logout_try_url_throws:
  assumes "idToken client = Some token" and "token \<noteq> []"
    and "createLogoutUrl client options = Inl e"
  shows "logout_try (Some client) browser openURL options =
     ([Call_createLogoutUrl options], Inl e)"
  using assms by (simp add: logout_try_def and_then_invoke_Inl)

lemma logout_try_url_falsy:
  assumes "idToken client = Some token" and "token \<noteq> []"
    and "createLogoutUrl client options = Inr built" and "built = None \<or> built = Some []"
  shows "logout_try (Some client) browser openURL options =
     ([Call_createLogoutUrl options], Inl (JsError ''Unable to create logout URL.''))"
  using assms by (auto simp: logout_try_def and_then_invoke_Inr fst_snd_prog)

text \<open>
  C4. Logout ends in one of three ways only: it resolves, it rejects with an \<^verbatim>\<open>Error\<close>
  whose message is \<^verbatim>\<open>Logout process failed: \<close> followed by the message of the
  \<^verbatim>\<open>Error\<close> raised inside the \<^verbatim>\<open>try\<close> block, or it rejects with the generic
  \<^verbatim>\<open>Error\<close> when the value raised inside is not an \<^verbatim>\<open>Error\<close>; the catch clause calls
  no collaborator. Each failure the claim lists is spelled out: a missing client or token, a
  logout URL that the client fails to build (by throwing, or by returning nothing), a browser
  that fails (availability query or session rejected, unknown outcome type), a session the
  user cancels or dismisses, a URL opener that rejects, and \<^verbatim>\<open>clearToken\<close> throwing.
\<close>

theorem logout_failures_rewrapped:
  "calls (logout clientOpt browser openURL options) =
     calls (logout_try clientOpt browser openURL options) \<and>
   ((outcome (logout_try clientOpt browser openURL options) = Inr () \<and>
     outcome (logout clientOpt browser openURL options) = Inr ()) \<or>
    (\<exists>m. outcome (logout_try clientOpt browser openURL options) = Inl (JsError m) \<and>
         outcome (logout clientOpt browser openURL options) =
           Inl (JsError (''Logout process failed: '' @ m))) \<or>
    (\<exists>e. outcome (logout_try clientOpt browser openURL options) = Inl e \<and>
         (\<forall>m. e \<noteq> JsError m) \<and>
         outcome (logout clientOpt browser openURL options) =
           Inl (JsError ''An unknown error occurred during logout.''))) \<and>
   (clientOpt = None \<or>
      (\<exists>client. clientOpt = Some client \<and> (idToken client = None \<or> idToken client = Some []))
    \<longrightarrow> outcome (logout clientOpt browser openURL options) =
          Inl (JsError ''Logout process failed: Keycloak instance or ID token is missing.'')) \<and>
   (\<forall>client token. clientOpt = Some client \<and> idToken client = Some token \<and> token \<noteq> [] \<longrightarrow>
      (\<forall>e. createLogoutUrl client options = Inl e \<longrightarrow>
         outcome (logout clientOpt browser openURL options) = Inl (rewrapped e)) \<and>
      (createLogoutUrl client options = Inr None \<or> createLogoutUrl client options = Inr (Some [])
         \<longrightarrow> outcome (logout clientOpt browser openURL options) =
               Inl (JsError ''Logout process failed: Unable to create logout URL.'')) \<and>
      (\<forall>url. createLogoutUrl client options = Inr (Some url) \<and> url \<noteq> [] \<longrightarrow>
         (\<forall>e. isAvailable browser = Inl e \<longrightarrow>
            outcome (logout clientOpt browser openURL options) = Inl (rewrapped e)) \<and>
         (isAvailable browser = Inr True \<longrightarrow>
            (\<forall>e. openAuth browser (rewriteLogoutUrl url token) (logoutRedirect options client) None
                   = Inl e \<longrightarrow>
               outcome (logout clientOpt browser openURL options) = Inl (rewrapped e)) \<and>
            (\<forall>result.
               openAuth browser (rewriteLogoutUrl url token) (logoutRedirect options client) None
                 = Inr result \<longrightarrow>
               (result_type result = ''cancel'' \<or> result_type result = ''dismiss'' \<longrightarrow>
                  outcome (logout clientOpt browser openURL options) =
                    Inl (JsError ''Logout process failed: User has closed the browser'')) \<and>
               (result_type result \<noteq> ''success'' \<and> result_type result \<noteq> ''cancel'' \<and>
                result_type result \<noteq> ''dismiss'' \<longrightarrow>
                  outcome (logout clientOpt browser openURL options) =
                    Inl (JsError
                      ''Logout process failed: Logout process failed in InAppBrowser.'')) \<and>
               (result_type result = ''success'' \<longrightarrow>
                  (\<forall>e. clearToken client = Inl e \<longrightarrow>
                     outcome (logout clientOpt browser openURL options) = Inl (rewrapped e))))) \<and>
         (isAvailable browser = Inr False \<longrightarrow>
            (\<forall>e. openURL (rewriteLogoutUrl url token) = Inl e \<longrightarrow>
               outcome (logout clientOpt browser openURL options) = Inl (rewrapped e)) \<and>
            (openURL (rewriteLogoutUrl url token) = Inr () \<longrightarrow>
               (\<forall>e. clearToken client = Inl e \<longrightarrow>
                  outcome (logout clientOpt browser openURL options) = Inl (rewrapped e))))))"
proof (intro conjI allI impI)
  let ?T = "logout_try clientOpt browser openURL options"
  let ?L = "logout clientOpt browser openURL options"
  show "calls ?L = calls ?T" by (rule logout_calls)
  show "(outcome ?T = Inr () \<and> outcome ?L = Inr ()) \<or>
     (\<exists>m. outcome ?T = Inl (JsError m) \<and>
          outcome ?L = Inl (JsError (''Logout process failed: '' @ m))) \<or>
     (\<exists>e. outcome ?T = Inl e \<and> (\<forall>m. e \<noteq> JsError m) \<and>
          outcome ?L = Inl (JsError ''An unknown error occurred during logout.''))"
  proof (cases "outcome ?T")
    case (Inl e)
    then show ?thesis by (cases e) (simp_all add: logout_outcome rewrapped_def)
  next
    case (Inr v)
    then show ?thesis by (simp add: logout_outcome)
  qed
next
  assume "clientOpt = None \<or>
    (\<exists>client. clientOpt = Some client \<and> (idToken client = None \<or> idToken client = Some []))"
  then have "logout_try clientOpt browser openURL options =
      throw (JsError ''Keycloak instance or ID token is missing.'')"
    by (rule logout_try_missing)
  then show "outcome (logout clientOpt browser openURL options) =
      Inl (JsError ''Logout process failed: Keycloak instance or ID token is missing.'')"
    by (simp add: logout_outcome outcome_simps rewrapped_def)
next
  fix client token e
  assume "clientOpt = Some client \<and> idToken client = Some token \<and> token \<noteq> []"
    and "createLogoutUrl client options = Inl e"
  then show "outcome (logout clientOpt browser openURL options) = Inl (rewrapped e)"
    by (simp add: logout_outcome logout_try_url_throws outcome_simps)
next
  fix client token
  assume "clientOpt = Some client \<and> idToken client = Some token \<and> token \<noteq> []"
    and "createLogoutUrl client options = Inr None \<or>
      createLogoutUrl client options = Inr (Some [])"
  then show "outcome (logout clientOpt browser openURL options) =
      Inl (JsError ''Logout process failed: Unable to create logout URL.'')"
    by (auto simp: logout_outcome logout_try_url_falsy outcome_simps rewrapped_def)
next
  fix client token url e
  assume "clientOpt = Some client \<and> idToken client = Some token \<and> token \<noteq> []"
    and "createLogoutUrl client options = Inr (Some url) \<and> url \<noteq> []"
    and "isAvailable browser = Inl e"
  then show "outcome (logout clientOpt browser openURL options) = Inl (rewrapped e)"
    by (simp add: logout_outcome logout_try_no_availability outcome_simps)
next
  fix client token url e
  assume "clientOpt = Some client \<and> idToken client = Some token \<and> token \<noteq> []"
    and "createLogoutUrl client options = Inr (Some url) \<and> url \<noteq> []"
    and "isAvailable browser = Inr True"
    and "openAuth browser (rewriteLogoutUrl url token) (logoutRedirect options client) None
      = Inl e"
  then show "outcome (logout clientOpt browser openURL options) = Inl (rewrapped e)"
    by (simp add: logout_outcome logout_try_available outcome_simps)
next
  fix client token url result
  assume "clientOpt = Some client \<and> idToken client = Some token \<and> token \<noteq> []"
    and "createLogoutUrl client options = Inr (Some url) \<and> url \<noteq> []"
    and "isAvailable browser = Inr True"
    and "openAuth browser (rewriteLogoutUrl url token) (logoutRedirect options client) None
      = Inr result"
    and "result_type result = ''cancel'' \<or> result_type result = ''dismiss''"
  then show "outcome (logout clientOpt browser openURL options) =
      Inl (JsError ''Logout process failed: User has closed the browser'')"
    by (auto simp: logout_outcome logout_try_available outcome_simps rewrapped_def)
next
  fix client token url result
  assume "clientOpt = Some client \<and> idToken client = Some token \<and> token \<noteq> []"
    and "createLogoutUrl client options = Inr (Some url) \<and> url \<noteq> []"
    and "isAvailable browser = Inr True"
    and "openAuth browser (rewriteLogoutUrl url token) (logoutRedirect options client) None
      = Inr result"
    and "result_type result \<noteq> ''success'' \<and> result_type result \<noteq> ''cancel'' \<and>
      result_type result \<noteq> ''dismiss''"
  then show "outcome (logout clientOpt browser openURL options) =
      Inl (JsError ''Logout process failed: Logout process failed in InAppBrowser.'')"
    by (simp add: logout_outcome logout_try_available outcome_simps rewrapped_def)
next
  fix client token url result e
  assume "clientOpt = Some client \<and> idToken client = Some token \<and> token \<noteq> []"
    and "createLogoutUrl client options = Inr (Some url) \<and> url \<noteq> []"
    and "isAvailable browser = Inr True"
    and "openAuth browser (rewriteLogoutUrl url token) (logoutRedirect options client) None
      = Inr result"
    and "result_type result = ''success''" and "clearToken client = Inl e"
  then show "outcome (logout clientOpt browser openURL options) = Inl (rewrapped e)"
    by (simp add: logout_outcome logout_try_available outcome_simps)
next
  fix client token url e
  assume "clientOpt = Some client \<and> idToken client = Some token \<and> token \<noteq> []"
    and "createLogoutUrl client options = Inr (Some url) \<and> url \<noteq> []"
    and "isAvailable browser = Inr False"
    and "openURL (rewriteLogoutUrl url token) = Inl e"
  then show "outcome (logout clientOpt browser openURL options) = Inl (rewrapped e)"
    by (simp add: logout_outcome logout_try_unavailable outcome_simps)
next
  fix client token url e
  assume "clientOpt = Some client \<and> idToken client = Some token \<and> token \<noteq> []"
    and "createLogoutUrl client options = Inr (Some url) \<and> url \<noteq> []"
    and "isAvailable browser = Inr False"
    and "openURL (rewriteLogoutUrl url token) = Inr ()" and "clearToken client = Inl e"
  then show "outcome (logout clientOpt browser openURL options) = Inl (rewrapped e)"
    by (simp add: logout_outcome logout_try_unavailable outcome_simps)
qed

theorem logout_failures_rewrapped_witness:
  "outcome (logout (Some example_client) cancelling_browser accepting_opener None) =
     Inl (JsError ''Logout process failed: User has closed the browser'') \<and>
   outcome (logout (Some example_client) unavailable_browser rejecting_opener None) =
     Inl (JsError ''Logout process failed: Could not open URL'') \<and>
   outcome (logout (Some (example_client\<lparr>createLogoutUrl := (\<lambda>_. Inr None)\<rparr>))
       redirecting_browser accepting_opener None) =
     Inl (JsError ''Logout process failed: Unable to create logout URL.'') \<and>
   outcome (logout (Some (example_client\<lparr>clearToken := Inl (ThrownString ''boom'')\<rparr>))
       redirecting_browser accepting_opener None) =
     Inl (JsError ''An unknown error occurred during logout.'') \<and>
   outcome (logout (Some (example_client\<lparr>idToken := None\<rparr>)) redirecting_browser
       accepting_opener None) =
     Inl (JsError ''Logout process failed: Keycloak instance or ID token is missing.'')"
proof -
  have a: "outcome (logout (Some example_client) cancelling_browser accepting_opener None) =
     Inl (JsError ''Logout process failed: User has closed the browser'')"
    using logout_failures_rewrapped [of "Some example_client" cancelling_browser
        accepting_opener None]
    by (simp add: example_client_def cancelling_browser_def)
  have b: "outcome (logout (Some example_client) unavailable_browser rejecting_opener None) =
     Inl (JsError ''Logout process failed: Could not open URL'')"
    using logout_failures_rewrapped [of "Some example_client" unavailable_browser
        rejecting_opener None]
    by (simp add: example_client_def unavailable_browser_def rejecting_opener_def rewrapped_def)
  have c: "outcome (logout (Some (example_client\<lparr>createLogoutUrl := (\<lambda>_. Inr None)\<rparr>))
       redirecting_browser accepting_opener None) =
     Inl (JsError ''Logout process failed: Unable to create logout URL.'')"
    using logout_failures_rewrapped [of
        "Some (example_client\<lparr>createLogoutUrl := (\<lambda>_. Inr None)\<rparr>)" redirecting_browser
        accepting_opener None]
    by (simp add: example_client_def)
  have d: "outcome (logout (Some (example_client\<lparr>clearToken := Inl (ThrownString ''boom'')\<rparr>))
       redirecting_browser accepting_opener None) =
     Inl (JsError ''An unknown error occurred during logout.'')"
    using logout_failures_rewrapped [of
        "Some (example_client\<lparr>clearToken := Inl (ThrownString ''boom'')\<rparr>)" redirecting_browser
        accepting_opener None]
    by (simp add: example_client_def redirecting_browser_def rewrapped_def)
  have e: "outcome (logout (Some (example_client\<lparr>idToken := None\<rparr>)) redirecting_browser
       accepting_opener None) =
     Inl (JsError ''Logout process failed: Keycloak instance or ID token is missing.'')"
    using logout_failures_rewrapped [of "Some (example_client\<lparr>idToken := None\<rparr>)"
        redirecting_browser accepting_opener None]
    by simp
  from a b c d e show ?thesis by (intro conjI)
qed

section \<open>Login and register: the outcome of the browser session\<close>

lemma login_session:
  assumes "createLoginUrl client options = Inr loginUrl"
    and "isAvailable browser = Inr True"
    and "openAuth browser loginUrl (clientRedirectUri client) (inAppBrowserOptions initOptions)
      = Inr res"
  shows "login client browser initOptions options =
     (if result_type res = ''success'' \<and> truthy (result_url res) then
        (case result_url res of
           Some url \<Rightarrow>
             (case parseCallback client url of
                Inl e \<Rightarrow>
                  ([Call_createLoginUrl options, Call_isAvailable,
                    Call_openAuth loginUrl (clientRedirectUri client)
                      (inAppBrowserOptions initOptions),
                    Call_parseCallback url], Inl e)
              | Inr oauth \<Rightarrow>
                  ([Call_createLoginUrl options, Call_isAvailable,
                    Call_openAuth loginUrl (clientRedirectUri client)
                      (inAppBrowserOptions initOptions),
                    Call_parseCallback url, Call_processCallback oauth],
                   processCallback client oauth))
         | None \<Rightarrow>
             ([Call_createLoginUrl options, Call_isAvailable,
               Call_openAuth loginUrl (clientRedirectUri client)
                 (inAppBrowserOptions initOptions)],
              Inl (JsError ''Authentication flow failed'')))
      else if result_type res = ''cancel'' then
        ([Call_createLoginUrl options, Call_isAvailable,
          Call_openAuth loginUrl (clientRedirectUri client) (inAppBrowserOptions initOptions)],
         Inl (JsError ''User has closed the browser''))
      else
        ([Call_createLoginUrl options, Call_isAvailable,
          Call_openAuth loginUrl (clientRedirectUri client) (inAppBrowserOptions initOptions)],
         Inl (JsError ''Authentication flow failed'')))"
  using assms
  by (simp add: login_def and_then_invoke_Inr and_then_invoke_Inl fst_snd_prog
      split: sum.splits option.splits)

lemma register_session:
  assumes "createRegisterUrl client options = Inr registerUrl"
    and "isAvailable browser = Inr True"
    and "openAuth browser registerUrl (clientRedirectUri client)
      (inAppBrowserOptions initOptions) = Inr res"
  shows "register client browser initOptions options =
     (if result_type res = ''success'' \<and> truthy (result_url res) then
        (case result_url res of
           Some url \<Rightarrow>
             (case parseCallback client url of
                Inl e \<Rightarrow>
                  ([Call_createRegisterUrl options, Call_isAvailable,
                    Call_openAuth registerUrl (clientRedirectUri client)
                      (inAppBrowserOptions initOptions),
                    Call_parseCallback url], Inl e)
              | Inr oauth \<Rightarrow>
                  ([Call_createRegisterUrl options, Call_isAvailable,
                    Call_openAuth registerUrl (clientRedirectUri client)
                      (inAppBrowserOptions initOptions),
                    Call_parseCallback url, Call_processCallback oauth],
                   processCallback client oauth))
         | None \<Rightarrow>
             ([Call_createRegisterUrl options, Call_isAvailable,
               Call_openAuth registerUrl (clientRedirectUri client)
                 (inAppBrowserOptions initOptions)],
              Inl (JsError ''Registration flow failed'')))
      else
        ([Call_createRegisterUrl options, Call_isAvailable,
          Call_openAuth registerUrl (clientRedirectUri client)
            (inAppBrowserOptions initOptions)],
         Inl (JsError ''Registration flow failed'')))"
  using assms
  by (simp add: register_def and_then_invoke_Inr and_then_invoke_Inl fst_snd_prog
      split: sum.splits option.splits)

text \<open>
  C5. When the browser session of login (of register) ends with type \<^verbatim>\<open>success\<close> and a
  URL (a non-empty string), the adapter's next call is the callback parser with exactly that
  URL; if the parser returns, its output is what the callback processor is called with,
  nothing is called after it, and the operation ends as the processor does, resolving or
  rejecting with the same value. (If the parser throws, the processor is not called and the
  operation rejects with what the parser threw.)
\<close>

theorem success_outcome_goes_through_callback:
  assumes "isAvailable browser = Inr True"
    and "result_type res = ''success''" and "result_url res = Some url" and "url \<noteq> []"
  shows "(createLoginUrl client options = Inr loginUrl \<and>
          openAuth browser loginUrl (clientRedirectUri client) (inAppBrowserOptions initOptions)
            = Inr res \<longrightarrow>
          (\<forall>oauth. parseCallback client url = Inr oauth \<longrightarrow>
             calls (login client browser initOptions options) =
               [Call_createLoginUrl options, Call_isAvailable,
                Call_openAuth loginUrl (clientRedirectUri client)
                  (inAppBrowserOptions initOptions),
                Call_parseCallback url, Call_processCallback oauth] \<and>
             outcome (login client browser initOptions options) =
               processCallback client oauth) \<and>
          (\<forall>e. parseCallback client url = Inl e \<longrightarrow>
             calls (login client browser initOptions options) =
               [Call_createLoginUrl options, Call_isAvailable,
                Call_openAuth loginUrl (clientRedirectUri client)
                  (inAppBrowserOptions initOptions),
                Call_parseCallback url] \<and>
             outcome (login client browser initOptions options) = Inl e)) \<and>
         (createRegisterUrl client options = Inr registerUrl \<and>
          openAuth browser registerUrl (clientRedirectUri client)
            (inAppBrowserOptions initOptions) = Inr res \<longrightarrow>
          (\<forall>oauth. parseCallback client url = Inr oauth \<longrightarrow>
             calls (register client browser initOptions options) =
               [Call_createRegisterUrl options, Call_isAvailable,
                Call_openAuth registerUrl (clientRedirectUri client)
                  (inAppBrowserOptions initOptions),
                Call_parseCallback url, Call_processCallback oauth] \<and>
             outcome (register client browser initOptions options) =
               processCallback client oauth) \<and>
          (\<forall>e. parseCallback client url = Inl e \<longrightarrow>
             calls (register client browser initOptions options) =
               [Call_createRegisterUrl options, Call_isAvailable,
                Call_openAuth registerUrl (clientRedirectUri client)
                  (inAppBrowserOptions initOptions),
                Call_parseCallback url] \<and>
             outcome (register client browser initOptions options) = Inl e))"
proof (intro conjI impI)
  assume h: "createLoginUrl client options = Inr loginUrl \<and>
    openAuth browser loginUrl (clientRedirectUri client) (inAppBrowserOptions initOptions)
      = Inr res"
  show "\<forall>oauth. parseCallback client url = Inr oauth \<longrightarrow>
     calls (login client browser initOptions options) =
       [Call_createLoginUrl options, Call_isAvailable,
        Call_openAuth loginUrl (clientRedirectUri client) (inAppBrowserOptions initOptions),
        Call_parseCallback url, Call_processCallback oauth] \<and>
     outcome (login client browser initOptions options) = processCallback client oauth"
    using assms
    by (simp add: login_session [OF conjunct1 [OF h] assms(1) conjunct2 [OF h]] calls_simps
        outcome_simps)
  show "\<forall>e. parseCallback client url = Inl e \<longrightarrow>
     calls (login client browser initOptions options) =
       [Call_createLoginUrl options, Call_isAvailable,
        Call_openAuth loginUrl (clientRedirectUri client) (inAppBrowserOptions initOptions),
        Call_parseCallback url] \<and>
     outcome (login client browser initOptions options) = Inl e"
    using assms
    by (simp add: login_session [OF conjunct1 [OF h] assms(1) conjunct2 [OF h]] calls_simps
        outcome_simps)
next
  assume h: "createRegisterUrl client options = Inr registerUrl \<and>
    openAuth browser registerUrl (clientRedirectUri client) (inAppBrowserOptions initOptions)
      = Inr res"
  show "\<forall>oauth. parseCallback client url = Inr oauth \<longrightarrow>
     calls (register client browser initOptions options) =
       [Call_createRegisterUrl options, Call_isAvailable,
        Call_openAuth registerUrl (clientRedirectUri client) (inAppBrowserOptions initOptions),
        Call_parseCallback url, Call_processCallback oauth] \<and>
     outcome (register client browser initOptions options) = processCallback client oauth"
    using assms
    by (simp add: register_session [OF conjunct1 [OF h] assms(1) conjunct2 [OF h]] calls_simps
        outcome_simps)
  show "\<forall>e. parseCallback client url = Inl e \<longrightarrow>
     calls (register client browser initOptions options) =
       [Call_createRegisterUrl options, Call_isAvailable,
        Call_openAuth registerUrl (clientRedirectUri client) (inAppBrowserOptions initOptions),
        Call_parseCallback url] \<and>
     outcome (register client browser initOptions options) = Inl e"
    using assms
    by (simp add: register_session [OF conjunct1 [OF h] assms(1) conjunct2 [OF h]] calls_simps
        outcome_simps)
qed

theorem success_outcome_goes_through_callback_witness:
  "calls (login example_client redirecting_browser \<lparr>inAppBrowserOptions = Some ()\<rparr> None) =
     [Call_createLoginUrl None, Call_isAvailable,
      Call_openAuth ''https://kc/realms/demo/auth?redirect_uri=app%3A%2F%2Fcb''
        (Some ''app://cb'') (Some ()),
      Call_parseCallback ''app://cb#code=c0de'', Call_processCallback ''code=c0de''] \<and>
   outcome (login example_client redirecting_browser \<lparr>inAppBrowserOptions = Some ()\<rparr> None) =
     Inr () \<and>
   calls (register (example_client\<lparr>processCallback := (\<lambda>_. Inl (JsError ''Invalid nonce''))\<rparr>)
     redirecting_browser \<lparr>inAppBrowserOptions = None\<rparr> None) =
     [Call_createRegisterUrl None, Call_isAvailable,
      Call_openAuth ''https://kc/realms/demo/registrations?redirect_uri=app%3A%2F%2Fcb''
        (Some ''app://cb'') None,
      Call_parseCallback ''app://cb#code=c0de'', Call_processCallback ''code=c0de''] \<and>
   outcome (register (example_client\<lparr>processCallback := (\<lambda>_. Inl (JsError ''Invalid nonce''))\<rparr>)
     redirecting_browser \<lparr>inAppBrowserOptions = None\<rparr> None) =
     Inl (JsError ''Invalid nonce'')"
proof -
  have a: "calls (login example_client redirecting_browser \<lparr>inAppBrowserOptions = Some ()\<rparr> None) =
     [Call_createLoginUrl None, Call_isAvailable,
      Call_openAuth ''https://kc/realms/demo/auth?redirect_uri=app%3A%2F%2Fcb''
        (Some ''app://cb'') (Some ()),
      Call_parseCallback ''app://cb#code=c0de'', Call_processCallback ''code=c0de''] \<and>
   outcome (login example_client redirecting_browser \<lparr>inAppBrowserOptions = Some ()\<rparr> None) =
     Inr ()"
    using success_outcome_goes_through_callback [of redirecting_browser
        "\<lparr>result_type = ''success'', result_url = Some ''app://cb#code=c0de''\<rparr>"
        "''app://cb#code=c0de''" example_client None
        "''https://kc/realms/demo/auth?redirect_uri=app%3A%2F%2Fcb''"
        "\<lparr>inAppBrowserOptions = Some ()\<rparr>"]
    by (simp add: example_client_def redirecting_browser_def)
  have b: "calls (register (example_client\<lparr>processCallback := (\<lambda>_. Inl (JsError ''Invalid nonce''))\<rparr>)
     redirecting_browser \<lparr>inAppBrowserOptions = None\<rparr> None) =
     [Call_createRegisterUrl None, Call_isAvailable,
      Call_openAuth ''https://kc/realms/demo/registrations?redirect_uri=app%3A%2F%2Fcb''
        (Some ''app://cb'') None,
      Call_parseCallback ''app://cb#code=c0de'', Call_processCallback ''code=c0de''] \<and>
   outcome (register (example_client\<lparr>processCallback := (\<lambda>_. Inl (JsError ''Invalid nonce''))\<rparr>)
     redirecting_browser \<lparr>inAppBrowserOptions = None\<rparr> None) =
     Inl (JsError ''Invalid nonce'')"
    using success_outcome_goes_through_callback [of redirecting_browser
        "\<lparr>result_type = ''success'', result_url = Some ''app://cb#code=c0de''\<rparr>"
        "''app://cb#code=c0de''"
        "example_client\<lparr>processCallback := (\<lambda>_. Inl (JsError ''Invalid nonce''))\<rparr>" None _
        "\<lparr>inAppBrowserOptions = None\<rparr>"
        "''https://kc/realms/demo/registrations?redirect_uri=app%3A%2F%2Fcb''"]
    by (simp add: example_client_def redirecting_browser_def)
  from a b show ?thesis by simp
qed

text \<open>
  C6. When the browser session ends with type \<^verbatim>\<open>cancel\<close>, login rejects with the
  \<^verbatim>\<open>Error\<close> \<^verbatim>\<open>User has closed the browser\<close>, while register rejects with the
  \<^verbatim>\<open>Error\<close> \<^verbatim>\<open>Registration flow failed\<close>, the one it uses for every outcome that is
  not a success with a URL; neither calls the callback parser or processor.
\<close>

theorem cancel_outcome_login_versus_register:
  assumes "isAvailable browser = Inr True" and "result_type res = ''cancel''"
  shows "(createLoginUrl client options = Inr loginUrl \<and>
          openAuth browser loginUrl (clientRedirectUri client) (inAppBrowserOptions initOptions)
            = Inr res \<longrightarrow>
          outcome (login client browser initOptions options) =
            Inl (JsError ''User has closed the browser'') \<and>
          calls (login client browser initOptions options) =
            [Call_createLoginUrl options, Call_isAvailable,
             Call_openAuth loginUrl (clientRedirectUri client)
               (inAppBrowserOptions initOptions)]) \<and>
         (createRegisterUrl client options = Inr registerUrl \<and>
          openAuth browser registerUrl (clientRedirectUri client)
            (inAppBrowserOptions initOptions) = Inr res \<longrightarrow>
          outcome (register client browser initOptions options) =
            Inl (JsError ''Registration flow failed'') \<and>
          calls (register client browser initOptions options) =
            [Call_createRegisterUrl options, Call_isAvailable,
             Call_openAuth registerUrl (clientRedirectUri client)
               (inAppBrowserOptions initOptions)])"
proof (intro conjI impI)
  assume h: "createLoginUrl client options = Inr loginUrl \<and>
    openAuth browser loginUrl (clientRedirectUri client) (inAppBrowserOptions initOptions)
      = Inr res"
  note s = login_session [OF conjunct1 [OF h] assms(1) conjunct2 [OF h]]
  show "outcome (login client browser initOptions options) =
      Inl (JsError ''User has closed the browser'')"
    using assms(2) by (simp add: s outcome_simps)
  show "calls (login client browser initOptions options) =
      [Call_createLoginUrl options, Call_isAvailable,
       Call_openAuth loginUrl (clientRedirectUri client) (inAppBrowserOptions initOptions)]"
    using assms(2) by (simp add: s calls_simps)
next
  assume h: "createRegisterUrl client options = Inr registerUrl \<and>
    openAuth browser registerUrl (clientRedirectUri client) (inAppBrowserOptions initOptions)
      = Inr res"
  note s = register_session [OF conjunct1 [OF h] assms(1) conjunct2 [OF h]]
  show "outcome (register client browser initOptions options) =
      Inl (JsError ''Registration flow failed'')"
    using assms(2) by (simp add: s outcome_simps)
  show "calls (register client browser initOptions options) =
      [Call_createRegisterUrl options, Call_isAvailable,
       Call_openAuth registerUrl (clientRedirectUri client) (inAppBrowserOptions initOptions)]"
    using assms(2) by (simp add: s calls_simps)
qed

theorem cancel_outcome_login_versus_register_witness:
  "outcome (login example_client cancelling_browser \<lparr>inAppBrowserOptions = None\<rparr> None) =
     Inl (JsError ''User has closed the browser'') \<and>
   outcome (register example_client cancelling_browser \<lparr>inAppBrowserOptions = None\<rparr> None) =
     Inl (JsError ''Registration flow failed'')"
  using cancel_outcome_login_versus_register [of cancelling_browser
      "\<lparr>result_type = ''cancel'', result_url = None\<rparr>" example_client None
      "''https://kc/realms/demo/auth?redirect_uri=app%3A%2F%2Fcb''"
      "\<lparr>inAppBrowserOptions = None\<rparr>"
      "''https://kc/realms/demo/registrations?redirect_uri=app%3A%2F%2Fcb''"]
  by (simp add: example_client_def cancelling_browser_def)

section \<open>Token requests, account management, redirect URI\<close>

lemma fetchTokens_run:
  "fetchTokens fetch tokenUrl params =
     (case fetch tokenUrl (tokenRequest params) of
        Inl e \<Rightarrow> ([Call_fetch tokenUrl (tokenRequest params)], Inl e)
      | Inr tokenRes \<Rightarrow>
          if ok tokenRes then
            ([Call_fetch tokenUrl (tokenRequest params), Call_json], json tokenRes)
          else ([Call_fetch tokenUrl (tokenRequest params)], Inl (JsError ''fetchTokens failed'')))"
  by (simp add: fetchTokens_def and_then_invoke_Inr and_then_invoke_Inl fst_snd_prog
      split: sum.splits)

lemma refreshTokens_run:
  "refreshTokens fetch tokenUrl params =
     (case fetch tokenUrl (tokenRequest params) of
        Inl e \<Rightarrow> ([Call_fetch tokenUrl (tokenRequest params)], Inl e)
      | Inr tokenRes \<Rightarrow>
          if ok tokenRes then
            ([Call_fetch tokenUrl (tokenRequest params), Call_json], json tokenRes)
          else
            ([Call_fetch tokenUrl (tokenRequest params)], Inl (JsError ''refreshTokens failed'')))"
  by (simp add: refreshTokens_def and_then_invoke_Inr and_then_invoke_Inl fst_snd_prog
      split: sum.splits)

text \<open>
  C7. \<^verbatim>\<open>fetchTokens\<close> and \<^verbatim>\<open>refreshTokens\<close> call \<^verbatim>\<open>fetch\<close> first and once only, with
  the token URL and a \<^verbatim>\<open>POST\<close> request whose content type is
  \<^verbatim>\<open>application/x-www-form-urlencoded\<close> and whose body is the given parameter string.
  If the response is not \<^verbatim>\<open>ok\<close>, they reject with the \<^verbatim>\<open>Error\<close>
  \<^verbatim>\<open>fetchTokens failed\<close>, respectively \<^verbatim>\<open>refreshTokens failed\<close>; if it is \<^verbatim>\<open>ok\<close>
  and its body parses as JSON, they resolve with the parsed value.
\<close>

theorem token_request_outcomes:
  "(\<exists>rest.
      calls (fetchTokens fetch tokenUrl params :: (('o, 'p, 'b) call, 'j) prog) =
        Call_fetch tokenUrl
          \<lparr>request_method = ''POST'',
           request_headers = [(''Content-type'', ''application/x-www-form-urlencoded'')],
           request_body = params\<rparr> # rest \<and>
      (\<forall>u r. Call_fetch u r \<notin> set rest)) \<and>
   (\<exists>rest.
      calls (refreshTokens fetch tokenUrl params :: (('o, 'p, 'b) call, 'j) prog) =
        Call_fetch tokenUrl
          \<lparr>request_method = ''POST'',
           request_headers = [(''Content-type'', ''application/x-www-form-urlencoded'')],
           request_body = params\<rparr> # rest \<and>
      (\<forall>u r. Call_fetch u r \<notin> set rest)) \<and>
   (\<forall>tokenRes.
      fetch tokenUrl
        \<lparr>request_method = ''POST'',
         request_headers = [(''Content-type'', ''application/x-www-form-urlencoded'')],
         request_body = params\<rparr> = Inr tokenRes \<longrightarrow>
      (\<not> ok tokenRes \<longrightarrow>
         outcome (fetchTokens fetch tokenUrl params :: (('o, 'p, 'b) call, 'j) prog) = Inl (JsError ''fetchTokens failed'') \<and>
         outcome (refreshTokens fetch tokenUrl params :: (('o, 'p, 'b) call, 'j) prog) = Inl (JsError ''refreshTokens failed'')) \<and>
      (\<forall>body. ok tokenRes \<and> json tokenRes = Inr body \<longrightarrow>
         outcome (fetchTokens fetch tokenUrl params :: (('o, 'p, 'b) call, 'j) prog) = Inr body \<and>
         outcome (refreshTokens fetch tokenUrl params :: (('o, 'p, 'b) call, 'j) prog) = Inr body))"
proof (intro conjI allI impI)
  show "\<exists>rest.
      calls (fetchTokens fetch tokenUrl params :: (('o, 'p, 'b) call, 'j) prog) =
        Call_fetch tokenUrl
          \<lparr>request_method = ''POST'',
           request_headers = [(''Content-type'', ''application/x-www-form-urlencoded'')],
           request_body = params\<rparr> # rest \<and>
      (\<forall>u r. Call_fetch u r \<notin> set rest)"
    by (simp add: fetchTokens_run tokenRequest_def calls_simps split: sum.splits)
  show "\<exists>rest.
      calls (refreshTokens fetch tokenUrl params :: (('o, 'p, 'b) call, 'j) prog) =
        Call_fetch tokenUrl
          \<lparr>request_method = ''POST'',
           request_headers = [(''Content-type'', ''application/x-www-form-urlencoded'')],
           request_body = params\<rparr> # rest \<and>
      (\<forall>u r. Call_fetch u r \<notin> set rest)"
    by (simp add: refreshTokens_run tokenRequest_def calls_simps split: sum.splits)
next
  fix tokenRes
  assume "fetch tokenUrl
        \<lparr>request_method = ''POST'',
         request_headers = [(''Content-type'', ''application/x-www-form-urlencoded'')],
         request_body = params\<rparr> = Inr tokenRes" and "\<not> ok tokenRes"
  then show "outcome (fetchTokens fetch tokenUrl params :: (('o, 'p, 'b) call, 'j) prog) = Inl (JsError ''fetchTokens failed'')"
    and "outcome (refreshTokens fetch tokenUrl params :: (('o, 'p, 'b) call, 'j) prog) = Inl (JsError ''refreshTokens failed'')"
    by (simp_all add: fetchTokens_run refreshTokens_run tokenRequest_def outcome_simps)
next
  fix tokenRes body
  assume "fetch tokenUrl
        \<lparr>request_method = ''POST'',
         request_headers = [(''Content-type'', ''application/x-www-form-urlencoded'')],
         request_body = params\<rparr> = Inr tokenRes" and "ok tokenRes \<and> json tokenRes = Inr body"
  then show "outcome (fetchTokens fetch tokenUrl params :: (('o, 'p, 'b) call, 'j) prog) = Inr body"
    and "outcome (refreshTokens fetch tokenUrl params :: (('o, 'p, 'b) call, 'j) prog) = Inr body"
    by (simp_all add: fetchTokens_run refreshTokens_run tokenRequest_def outcome_simps)
qed

theorem token_request_outcomes_witness:
  "outcome (fetchTokens example_fetch ''https://kc/realms/demo/token''
       ''grant_type=authorization_code&code=c0de'' :: ((unit, string, unit) call, _) prog) =
     Inr [(''access_token'', ''a1''), (''id_token'', ''tok'')] \<and>
   outcome (refreshTokens example_fetch ''https://kc/realms/demo/token''
       ''grant_type=refresh_token&refresh_token=r1'' :: ((unit, string, unit) call, _) prog) =
     Inr [(''access_token'', ''a1''), (''id_token'', ''tok'')] \<and>
   outcome (fetchTokens example_fetch ''https://kc/realms/none/token''
       ''grant_type=authorization_code&code=c0de'' :: ((unit, string, unit) call, _) prog) =
     Inl (JsError ''fetchTokens failed'') \<and>
   outcome (refreshTokens example_fetch ''https://kc/realms/none/token''
       ''grant_type=refresh_token&refresh_token=r1'' :: ((unit, string, unit) call, _) prog) =
     Inl (JsError ''refreshTokens failed'')"
proof -
  have demo: "example_fetch ''https://kc/realms/demo/token'' req =
      Inr \<lparr>ok = True, json = Inr [(''access_token'', ''a1''), (''id_token'', ''tok'')]\<rparr>" for req
    by (simp add: example_fetch_def)
  have none: "example_fetch ''https://kc/realms/none/token'' req =
      Inr \<lparr>ok = False, json = Inl (JsError ''Unexpected end of JSON input'')\<rparr>" for req
    by (simp add: example_fetch_def)
  show ?thesis
    using token_request_outcomes [of example_fetch "''https://kc/realms/demo/token''"
        "''grant_type=authorization_code&code=c0de''", where ?'o = unit and ?'p = string
        and ?'b = unit]
      token_request_outcomes [of example_fetch "''https://kc/realms/demo/token''"
        "''grant_type=refresh_token&refresh_token=r1''", where ?'o = unit and ?'p = string
        and ?'b = unit]
      token_request_outcomes [of example_fetch "''https://kc/realms/none/token''"
        "''grant_type=authorization_code&code=c0de''", where ?'o = unit and ?'p = string
        and ?'b = unit]
      token_request_outcomes [of example_fetch "''https://kc/realms/none/token''"
        "''grant_type=refresh_token&refresh_token=r1''", where ?'o = unit and ?'p = string
        and ?'b = unit]
    by (simp add: demo none)
qed

text \<open>
  C9. When the client returns no account URL, \<^verbatim>\<open>accountManagement\<close> calls nothing else,
  no browser in particular, and rejects with the string
  \<^verbatim>\<open>Not supported by the OIDC server\<close>. When it returns one, the adapter's only other call
  is \<^verbatim>\<open>InAppBrowser.open\<close> (not \<^verbatim>\<open>openAuth\<close>) with that URL and the configured browser
  options, and the operation ends as that call does.
\<close>

theorem accountManagement_opens_or_rejects:
  "(createAccountUrl client = Inr None \<longrightarrow>
      calls (accountManagement client browser initOptions) = [Call_createAccountUrl] \<and>
      outcome (accountManagement client browser initOptions) =
        Inl (ThrownString ''Not supported by the OIDC server'')) \<and>
   (\<forall>url. createAccountUrl client = Inr (Some url) \<longrightarrow>
      calls (accountManagement client browser initOptions) =
        [Call_createAccountUrl, Call_open url (inAppBrowserOptions initOptions)] \<and>
      outcome (accountManagement client browser initOptions) =
        openBrowser browser url (inAppBrowserOptions initOptions))"
  by (simp add: accountManagement_def and_then_invoke_Inr fst_snd_prog calls_simps outcome_simps)

theorem accountManagement_opens_or_rejects_witness:
  "outcome (accountManagement (example_client\<lparr>createAccountUrl := Inr None\<rparr>)
      redirecting_browser \<lparr>inAppBrowserOptions = Some ()\<rparr>) =
     Inl (ThrownString ''Not supported by the OIDC server'') \<and>
   calls (accountManagement (example_client\<lparr>createAccountUrl := Inr None\<rparr>)
      redirecting_browser \<lparr>inAppBrowserOptions = Some ()\<rparr>) = [Call_createAccountUrl] \<and>
   calls (accountManagement example_client redirecting_browser
      \<lparr>inAppBrowserOptions = Some ()\<rparr>) =
     [Call_createAccountUrl, Call_open ''https://kc/realms/demo/account'' (Some ())] \<and>
   outcome (accountManagement example_client redirecting_browser
      \<lparr>inAppBrowserOptions = Some ()\<rparr>) = Inr ()"
  using accountManagement_opens_or_rejects [of "example_client\<lparr>createAccountUrl := Inr None\<rparr>"
      redirecting_browser "\<lparr>inAppBrowserOptions = Some ()\<rparr>"]
    accountManagement_opens_or_rejects [of example_client redirecting_browser
      "\<lparr>inAppBrowserOptions = Some ()\<rparr>"]
  by (simp add: example_client_def redirecting_browser_def)

text \<open>
  C8. \<^verbatim>\<open>redirectUri\<close> returns the \<^verbatim>\<open>redirectUri\<close> of its options when one is supplied
  (a non-empty string, as both tests of the source are truthiness tests); when none is
  supplied (no options, no such property, or an empty one) it returns the redirect URI
  configured in the client, and the empty string when the client has none. In particular
  \<^verbatim>\<open>redirectUri({})\<close> is the empty string when the client has no redirect URI, and
  \<^verbatim>\<open>redirectUri({redirectUri: "x"})\<close> is \<^verbatim>\<open>"x"\<close> whatever the client holds.
\<close>

theorem redirectUri_resolution:
  "(\<forall>opts u. options = Some opts \<and> optionsRedirectUri opts = Some u \<and> u \<noteq> [] \<longrightarrow>
      redirectUri client options = u) \<and>
   (options = None \<or>
    (\<exists>opts. options = Some opts \<and>
       (optionsRedirectUri opts = None \<or> optionsRedirectUri opts = Some [])) \<longrightarrow>
      (\<forall>c. clientRedirectUri client = Some c \<longrightarrow> redirectUri client options = c) \<and>
      (clientRedirectUri client = None \<longrightarrow> redirectUri client options = [])) \<and>
   (clientRedirectUri client = None \<longrightarrow>
      redirectUri client (Some \<lparr>optionsRedirectUri = None\<rparr>) = []) \<and>
   redirectUri client (Some \<lparr>optionsRedirectUri = Some ''x''\<rparr>) = ''x''"
  by (auto simp: redirectUri_def split: option.splits)

theorem redirectUri_resolution_witness:
  "redirectUri example_client (Some \<lparr>optionsRedirectUri = Some ''other://cb''\<rparr>) = ''other://cb'' \<and>
   redirectUri example_client None = ''app://cb'' \<and>
   redirectUri example_client (Some \<lparr>optionsRedirectUri = None\<rparr>) = ''app://cb'' \<and>
   redirectUri (example_client\<lparr>clientRedirectUri := None\<rparr>)
     (Some \<lparr>optionsRedirectUri = None\<rparr>) = [] \<and>
   redirectUri (example_client\<lparr>clientRedirectUri := None\<rparr>)
     (Some \<lparr>optionsRedirectUri = Some ''x''\<rparr>) = ''x''"
  using redirectUri_resolution [of "Some \<lparr>optionsRedirectUri = Some ''other://cb''\<rparr>"
      example_client]
    redirectUri_resolution [of None example_client]
    redirectUri_resolution [of "Some \<lparr>optionsRedirectUri = None\<rparr>" example_client]
    redirectUri_resolution [of "Some \<lparr>optionsRedirectUri = None\<rparr>"
      "example_client\<lparr>clientRedirectUri := None\<rparr>"]
  by (simp add: example_client_def)

section \<open>Logout: only the first occurrence is rewritten\<close>

lemma occurs_at_append_left: "occurs_at pat k s \<Longrightarrow> occurs_at pat (length a + k) (a @ s)"
  by (simp add: occurs_at_def)

lemma occurs_at_append_right: "occurs_at pat k s \<Longrightarrow> occurs_at pat k (s @ t)"
  by (simp add: occurs_at_def)

lemma occurs_at_drop: "j \<le> m \<Longrightarrow> occurs_at pat m s \<Longrightarrow> occurs_at pat (m - j) (drop j s)"
  by (auto simp: occurs_at_def)

text \<open>
  C10. When the text \<^verbatim>\<open>redirect_uri\<close> occurs in the logout URL, with its first occurrence
  at index \<open>n\<close>, the rewrite replaces these twelve characters and copies all that follows
  them unchanged: every later occurrence of \<^verbatim>\<open>redirect_uri\<close> is still there, twelve
  characters further on. Whether the first occurrence is the name of the redirect parameter
  plays no role.
\<close>

theorem logout_rewrite_first_occurrence_only:
  assumes "occurs_at ''redirect_uri'' n url"
    and "\<forall>k<n. \<not> occurs_at ''redirect_uri'' k url"
  shows "rewriteLogoutUrl url token =
           take n url @ ''post_logout_redirect_uri'' @ drop (n + 12) url
             @ ''&id_token_hint='' @ token \<and>
         (\<forall>m. n + 12 \<le> m \<and> occurs_at ''redirect_uri'' m url \<longrightarrow>
            occurs_at ''redirect_uri'' (m + 12) (rewriteLogoutUrl url token))"
proof
  have len: "length ''redirect_uri'' = 12" by simp
  have "string_replace url ''redirect_uri'' ''post_logout_redirect_uri'' =
      take n url @ ''post_logout_redirect_uri'' @ drop (n + length ''redirect_uri'') url"
    using assms by (rule string_replace_first)
  then have "string_replace url ''redirect_uri'' ''post_logout_redirect_uri'' =
      take n url @ ''post_logout_redirect_uri'' @ drop (n + 12) url"
    unfolding len .
  then show r: "rewriteLogoutUrl url token =
      take n url @ ''post_logout_redirect_uri'' @ drop (n + 12) url
        @ ''&id_token_hint='' @ token"
    by (simp add: rewriteLogoutUrl_def)
  show "\<forall>m. n + 12 \<le> m \<and> occurs_at ''redirect_uri'' m url \<longrightarrow>
      occurs_at ''redirect_uri'' (m + 12) (rewriteLogoutUrl url token)"
  proof (intro allI impI)
    fix m
    assume h: "n + 12 \<le> m \<and> occurs_at ''redirect_uri'' m url"
    define a where "a = take n url @ ''post_logout_redirect_uri''"
    define t where "t = drop (n + 12) url @ ''&id_token_hint='' @ token"
    from assms(1) have "n \<le> length url" by (simp add: occurs_at_def)
    then have la: "length a = n + 24" by (simp add: a_def)
    have rw: "rewriteLogoutUrl url token = a @ t" by (simp add: r a_def t_def)
    from h have "occurs_at ''redirect_uri'' (m - (n + 12)) (drop (n + 12) url)"
      by (simp add: occurs_at_drop)
    then have "occurs_at ''redirect_uri'' (m - (n + 12)) t"
      unfolding t_def by (rule occurs_at_append_right)
    then have "occurs_at ''redirect_uri'' (length a + (m - (n + 12))) (a @ t)"
      by (rule occurs_at_append_left)
    moreover from h have "length a + (m - (n + 12)) = m + 12"
      unfolding la by arith
    ultimately have "occurs_at ''redirect_uri'' (m + 12) (a @ t)"
      by (simp only:)
    then show "occurs_at ''redirect_uri'' (m + 12) (rewriteLogoutUrl url token)"
      by (simp only: rw)
  qed
qed

theorem logout_rewrite_first_occurrence_only_witness:
  "rewriteLogoutUrl ''https://kc/logout?redirect_uri=app%3A%2F%2Fcb%3Fredirect_uri%3Dx'' ''tok'' =
     ''https://kc/logout?post_logout_redirect_uri=app%3A%2F%2Fcb%3Fredirect_uri%3Dx&id_token_hint=tok'' \<and>
   occurs_at ''redirect_uri'' 48 ''https://kc/logout?redirect_uri=app%3A%2F%2Fcb%3Fredirect_uri%3Dx'' \<and>
   occurs_at ''redirect_uri'' 60
     (rewriteLogoutUrl ''https://kc/logout?redirect_uri=app%3A%2F%2Fcb%3Fredirect_uri%3Dx'' ''tok'')"
proof -
  have first: "occurs_at ''redirect_uri'' 18
      ''https://kc/logout?redirect_uri=app%3A%2F%2Fcb%3Fredirect_uri%3Dx''"
    by (simp add: occurs_at_def)
  have none_before: "\<forall>k<18. \<not> occurs_at ''redirect_uri'' k
      ''https://kc/logout?redirect_uri=app%3A%2F%2Fcb%3Fredirect_uri%3Dx''"
  proof -
    have "\<forall>k<Suc (length ''https://kc/logout'').
        \<not> occurs_at ''redirect_uri'' k
          ''https://kc/logout?redirect_uri=app%3A%2F%2Fcb%3Fredirect_uri%3Dx''"
      by (simp add: All_less_Suc occurs_at_def)
    then show ?thesis by simp
  qed
  have later: "occurs_at ''redirect_uri'' 48
      ''https://kc/logout?redirect_uri=app%3A%2F%2Fcb%3Fredirect_uri%3Dx''"
    by (simp add: occurs_at_def)
  note claim = logout_rewrite_first_occurrence_only [OF first none_before, of "''tok''"]
  from claim have rewritten:
    "rewriteLogoutUrl ''https://kc/logout?redirect_uri=app%3A%2F%2Fcb%3Fredirect_uri%3Dx'' ''tok'' =
     ''https://kc/logout?post_logout_redirect_uri=app%3A%2F%2Fcb%3Fredirect_uri%3Dx&id_token_hint=tok''"
    by simp
  from claim have "18 + 12 \<le> (48::nat) \<and> occurs_at ''redirect_uri'' 48
        ''https://kc/logout?redirect_uri=app%3A%2F%2Fcb%3Fredirect_uri%3Dx'' \<longrightarrow>
      occurs_at ''redirect_uri'' (48 + 12)
        (rewriteLogoutUrl ''https://kc/logout?redirect_uri=app%3A%2F%2Fcb%3Fredirect_uri%3Dx''
           ''tok'')"
    by blast
  with later have kept: "occurs_at ''redirect_uri'' 60
      (rewriteLogoutUrl ''https://kc/logout?redirect_uri=app%3A%2F%2Fcb%3Fredirect_uri%3Dx'' ''tok'')"
    by simp
  from rewritten later kept show ?thesis by (intro conjI)
qed

text \<open>
  Two logout URLs where the first occurrence is not the name of the redirect parameter: a
  parameter whose name ends in \<^verbatim>\<open>redirect_uri\<close>, and a realm called
  \<^verbatim>\<open>redirect_uri\<close>. The redirect parameter itself keeps its login-style name.
\<close>

lemma rewrite_other_parameter_name:
  "rewriteLogoutUrl ''https://kc/logout?x_redirect_uri=1&redirect_uri=app'' ''tok'' =
     ''https://kc/logout?x_post_logout_redirect_uri=1&redirect_uri=app&id_token_hint=tok''"
  by (simp add: rewriteLogoutUrl_def)

lemma rewrite_realm_name:
  "rewriteLogoutUrl ''https://kc/realms/redirect_uri/logout?redirect_uri=app'' ''tok'' =
     ''https://kc/realms/post_logout_redirect_uri/logout?redirect_uri=app&id_token_hint=tok''"
  by (simp add: rewriteLogoutUrl_def)

text \<open>A logout URL without the text is only extended by the hint.\<close>

lemma rewrite_without_occurrence:
  "\<forall>k. \<not> occurs_at ''redirect_uri'' k url \<Longrightarrow>
     rewriteLogoutUrl url token = url @ ''&id_token_hint='' @ token"
  by (simp add: rewriteLogoutUrl_def string_replace_absent)

end
